theory Spec2Isabelle
  imports Main "HOL-Library.Word" "HOL-Library.Multiset"
begin

section \<open>The eth/66 handlers of the sentry multi client\<close>

text \<open>
  The development embeds the message handlers of \<open>MultiClient\<close> (package
  \<open>sentry_multi_client\<close>): \<open>newBlockHashes66\<close>, \<open>blockHeaders66\<close>, \<open>blockHeaders\<close>,
  \<open>newBlock66\<close>, \<open>blockBodies66\<close>, \<open>receipts66\<close>, \<open>getBlockHeaders66\<close>,
  \<open>getBlockBodies66\<close>, \<open>getReceipts66\<close>, \<open>handleInboundMessage\<close> and
  \<open>HandleInboundMessage\<close>.

  A handler is a function from the history of calls made so far to its return value and
  the extended history. Every call that acts on a collaborator is appended to the history
  as an \<open>event\<close>: the calls on a sentry, the calls that hand data to the header downloader
  \<open>cs.Hd\<close> and to the body downloader \<open>cs.Bd\<close>, the calls of the \<open>MultiClient\<close> methods of the
  sibling file, and the log lines. Reading the state of the downloader, opening and
  rolling back a store transaction and taking the receipts semaphore leave no event: only
  their answers enter the model. The collaborators that are declared outside the embedded
  source (the RLP codec and stream, the downloaders, the store, the sentry clients, the
  clock and the random source) are parameters: what they answer is a function of their
  arguments and, for the stateful ones, of the history at the moment of the call.
\<close>

subsection \<open>Data\<close>

type_synonym bytes = "8 word list"

text \<open>\<open>common.Hash\<close> and \<open>*proto_types.H512\<close> are byte strings; a sentry client is
  identified by a number. \<open>sentry.ConvertH512ToPeerID\<close> only changes the representation
  of a peer id and is the identity here.\<close>

type_synonym hash = bytes
type_synonym peer_id = bytes
type_synonym sentry_client = nat
type_synonym uint64 = "64 word"

text \<open>The members of \<open>proto_sentry.MessageId\<close> that \<open>handleInboundMessage\<close> switches on;
  every other member is \<open>OTHER_MESSAGE\<close>. The field \<open>Id\<close> of \<open>proto_sentry.InboundMessage\<close>
  is \<open>msgId\<close> here.\<close>

datatype MessageId =
    NEW_BLOCK_HASHES_66
  | BLOCK_HEADERS_66
  | NEW_BLOCK_66
  | BLOCK_BODIES_66
  | GET_BLOCK_HEADERS_66
  | GET_BLOCK_BODIES_66
  | RECEIPTS_66
  | GET_RECEIPTS_66
  | OTHER_MESSAGE nat

record InboundMessage =
  msgId :: MessageId
  Data :: bytes
  PeerId :: peer_id

text \<open>Go errors: a plain error, \<open>fmt.Errorf("<text>: %w", err)\<close> as \<open>Wrapf\<close>, and the
  error that \<open>HandleInboundMessage\<close> builds from a recovered panic. The hexadecimal dump of
  the message that three of the decode errors append to their text is left out of the
  text.\<close>

datatype error =
    Error string
  | Wrapf string error
  | Recovered string MessageId

text \<open>\<open>types.Header\<close>: the handlers read the block number only, a \<open>*big.Int\<close>; the other
  fields are kept as one opaque value. \<open>Uint64\<close> is \<open>big.Int.Uint64\<close>, the low 64 bits of
  the magnitude.\<close>

record Header =
  HeaderNumber :: int
  HeaderFields :: bytes

definition Uint64 :: "int \<Rightarrow> uint64" where
  "Uint64 x = word_of_int \<bar>x\<bar>"

record RawBody =
  Transactions :: "bytes list"
  Uncles :: "Header list"
  Withdrawals :: "bytes list"

record Block =
  BlockHeader :: Header
  BlockRawBody :: RawBody

text \<open>Modelled from the spec: \<open>Block.NumberU64\<close> of package \<open>types\<close> is declared outside
  the embedded source. The spec calls the value that \<open>newBlock66\<close> reports with
  \<open>PeerMinBlock\<close> "block.number": the number of the header of the block, as a
  \<open>uint64\<close>.\<close>

definition NumberU64 :: "Block \<Rightarrow> uint64" where
  "NumberU64 b = Uint64 (HeaderNumber (BlockHeader b))"

record NewBlockPacket =
  NewBlock :: Block
  TD :: int

text \<open>An element of \<open>eth.NewBlockHashesPacket\<close>; \<open>headerdownload.Announce\<close> has the same
  two fields.\<close>

record Announce =
  AnnounceHash :: hash
  AnnounceNumber :: uint64

record HashOrNumber =
  OriginHash :: hash
  OriginNumber :: uint64

record GetBlockHeadersPacket =
  Origin :: HashOrNumber
  Amount :: uint64
  Skip :: uint64
  Reverse :: bool

text \<open>The eth/66 wrappers pair a \<open>RequestId\<close> with the wrapped packet.\<close>

type_synonym 'a packet66 = "uint64 \<times> 'a"

record ChainSegmentHeader =
  HeaderRaw :: bytes
  Header :: Header
  Hash :: hash
  Number :: uint64

text \<open>\<open>headerdownload.Penalty\<close>: \<open>NoPenalty\<close> and the other kinds, which the handlers do
  not tell apart.\<close>

datatype Penalty = NoPenalty | OtherPenalty nat

record PenaltyItem =
  PenaltyOf :: Penalty
  PenaltyPeerID :: peer_id

datatype PenaltyKind = Kick

record HeaderRequest =
  ReqHash :: hash
  ReqNumber :: uint64
  ReqLength :: uint64
  ReqSkip :: uint64
  ReqReverse :: bool

text \<open>The result of \<open>eth.AnswerGetReceiptsQueryCacheOnly\<close>.\<close>

record CachedReceipts =
  EncodedReceipts :: "bytes list"
  PendingIndex :: nat

datatype LogLevel = LvlError | LvlDebug | LvlTrace

subsection \<open>The history of calls\<close>

datatype event =
    Ev_SendMessageById sentry_client peer_id MessageId bytes
  | Ev_PenalizePeer sentry_client peer_id PenaltyKind
  | Ev_PeerMinBlock sentry_client peer_id uint64
  | Ev_SaveExternalAnnounce hash
  | Ev_ProcessHeaders "ChainSegmentHeader list" bool peer_id
  | Ev_ProcessHeadersPOS "ChainSegmentHeader list" peer_id
  | Ev_RequestMoreHeaders nat
  | Ev_UpdateStats HeaderRequest bool peer_id
  | Ev_UpdateRetryTime HeaderRequest nat nat
  | Ev_SingleHeaderAsSegment bytes Header bool
  | Ev_AddToPrefetch Header RawBody
  | Ev_DeliverBodies "bytes list list" "Header list list" "bytes list list" uint64 peer_id
  | Ev_SendHeaderRequest HeaderRequest
  | Ev_Penalize "PenaltyItem list"
  | Ev_PropagateNewBlockHashes "Announce list"
  | Ev_Log LogLevel string

type_synonym trace = "event list"

subsection \<open>The collaborators\<close>

text \<open>Package \<open>rlp\<close>: \<open>rlp.DecodeBytes\<close> and \<open>rlp.EncodeToBytes\<close> at each packet type the
  handlers use them at, and \<open>rlp.IsInvalidRLPError\<close>.\<close>

record rlp_codec =
  IsInvalidRLPError :: "error \<Rightarrow> bool"
  DecodeNewBlockHashesPacket :: "bytes \<Rightarrow> error + Announce list"
  DecodeBlockHeadersPacket66 :: "bytes \<Rightarrow> error + Header list packet66"
  DecodeNewBlockPacket :: "bytes \<Rightarrow> error + NewBlockPacket"
  DecodeBlockRawBodiesPacket66 :: "bytes \<Rightarrow> error + RawBody list packet66"
  DecodeGetBlockHeadersPacket66 :: "bytes \<Rightarrow> error + GetBlockHeadersPacket packet66"
  DecodeGetBlockBodiesPacket66 :: "bytes \<Rightarrow> error + hash list packet66"
  DecodeGetReceiptsPacket66 :: "bytes \<Rightarrow> error + hash list packet66"
  EncodeGetBlockHeadersPacket66 :: "GetBlockHeadersPacket packet66 \<Rightarrow> error + bytes"
  EncodeBlockHeadersPacket66 :: "Header list packet66 \<Rightarrow> error + bytes"
  EncodeBlockBodiesRLPPacket66 :: "bytes list packet66 \<Rightarrow> error + bytes"
  EncodeReceiptsRLPPacket66 :: "bytes list packet66 \<Rightarrow> error + bytes"

text \<open>\<open>rlp.Stream\<close>: the state of a stream is the input not yet read and the sizes of the
  lists entered; \<open>List\<close>, \<open>Uint\<close> and \<open>Raw\<close> are its methods, \<open>RawRlpHash\<close> is
  \<open>types.RawRlpHash\<close>, the keccak hash of the bytes given.\<close>

type_synonym stream = "bytes \<times> nat list"

definition NewStream :: "bytes \<Rightarrow> stream" where
  "NewStream data = (data, [])"

record rlp_stream =
  StreamList :: "stream \<Rightarrow> error + stream"
  StreamUint :: "stream \<Rightarrow> error + (uint64 \<times> stream)"
  StreamRaw :: "stream \<Rightarrow> error + (bytes \<times> stream)"
  RawRlpHash :: "bytes \<Rightarrow> hash"

text \<open>\<open>headerdownload.HeaderDownload\<close>: what the methods with a result return when
  called after the given history.\<close>

record header_download =
  InitialCycle :: "trace \<Rightarrow> bool"
  FetchingNew :: "trace \<Rightarrow> bool"
  HasLink :: "trace \<Rightarrow> hash \<Rightarrow> bool"
  POSSync :: "trace \<Rightarrow> bool"
  ProcessHeaders :: "trace \<Rightarrow> ChainSegmentHeader list \<Rightarrow> bool \<Rightarrow> peer_id \<Rightarrow> bool"
  ProcessHeadersPOS :: "trace \<Rightarrow> ChainSegmentHeader list \<Rightarrow> peer_id \<Rightarrow> error + PenaltyItem list"
  RequestMoreHeaders :: "trace \<Rightarrow> nat \<Rightarrow> HeaderRequest option \<times> PenaltyItem list"
  SingleHeaderAsSegment ::
    "trace \<Rightarrow> bytes \<Rightarrow> Header \<Rightarrow> bool \<Rightarrow> error + (ChainSegmentHeader list \<times> Penalty)"
  FirstPoSHeight :: "trace \<Rightarrow> uint64 option"

text \<open>The sentry clients and the helpers of the sibling file of the package:
  \<open>SendMessageById\<close> and \<open>PenalizePeer\<close> and \<open>PeerMinBlock\<close> return an error or nil,
  \<open>NotReadyDirect\<close> is the test \<open>ok && !directSentry.Ready()\<close>, \<open>SendHeaderRequest\<close> returns
  the peer and whether the request was sent, \<open>isPeerNotFoundErr\<close> classifies an error.\<close>

record sentry_api =
  SendMessageById :: "trace \<Rightarrow> sentry_client \<Rightarrow> peer_id \<Rightarrow> MessageId \<Rightarrow> bytes \<Rightarrow> error option"
  PenalizePeer :: "trace \<Rightarrow> sentry_client \<Rightarrow> peer_id \<Rightarrow> PenaltyKind \<Rightarrow> error option"
  PeerMinBlock :: "trace \<Rightarrow> sentry_client \<Rightarrow> peer_id \<Rightarrow> uint64 \<Rightarrow> error option"
  NotReadyDirect :: "trace \<Rightarrow> sentry_client \<Rightarrow> bool"
  SendHeaderRequest :: "trace \<Rightarrow> HeaderRequest \<Rightarrow> peer_id \<times> bool"
  isPeerNotFoundErr :: "error \<Rightarrow> bool"

text \<open>The store \<open>cs.db\<close>, the answers of package \<open>eth\<close> computed from it, the receipts
  semaphore, the checks of the decoded block, the clock and the random source.
  \<open>ViewAnswerGetBlockHeadersQuery\<close> is \<open>eth.AnswerGetBlockHeadersQuery\<close> run inside
  \<open>cs.db.View\<close>.\<close>

record chain_store =
  BeginTemporalRo :: "trace \<Rightarrow> error option"
  BeginRo :: "trace \<Rightarrow> error option"
  ViewAnswerGetBlockHeadersQuery :: "trace \<Rightarrow> GetBlockHeadersPacket \<Rightarrow> error + Header list"
  AnswerGetBlockBodiesQuery :: "trace \<Rightarrow> hash list \<Rightarrow> bytes list"
  AnswerGetReceiptsQueryCacheOnly ::
    "trace \<Rightarrow> hash list \<Rightarrow> error + (CachedReceipts option \<times> bool)"
  AnswerGetReceiptsQuery :: "trace \<Rightarrow> hash list \<Rightarrow> CachedReceipts option \<Rightarrow> error + bytes list"
  SemaphoreAcquire :: "trace \<Rightarrow> error option"
  SanityCheck :: "NewBlockPacket \<Rightarrow> error option"
  HashCheck :: "Block \<Rightarrow> error option"
  TimeNow :: "trace \<Rightarrow> nat"
  RandUint64 :: "trace \<Rightarrow> uint64"

record env =
  rlp :: rlp_codec
  rlpStream :: rlp_stream
  Hd :: header_download
  sentryApi :: sentry_api
  store :: chain_store

text \<open>The fields of \<open>MultiClient\<close> that the handlers branch on;
  \<open>TerminalTotalDifficultyPassed\<close> is the field of \<open>cs.ChainConfig\<close>.\<close>

record MultiClient =
  IsMock :: bool
  sentries :: "sentry_client list"
  TerminalTotalDifficultyPassed :: bool
  disableBlockDownload :: bool

subsection \<open>The query responders\<close>

text \<open>\<open>getBlockHeaders66\<close>. The two branches after a failed send return the same
  error.\<close>

definition getBlockHeaders66 ::
  "env \<Rightarrow> MultiClient \<Rightarrow> InboundMessage \<Rightarrow> sentry_client \<Rightarrow> trace \<Rightarrow> error option \<times> trace" where
  "getBlockHeaders66 E cs inreq sentry tr =
     (case DecodeGetBlockHeadersPacket66 (rlp E) (Data inreq) of
        Inl err \<Rightarrow> (Some (Wrapf ''decoding getBlockHeaders66'' err), tr)
      | Inr query \<Rightarrow>
          (case ViewAnswerGetBlockHeadersQuery (store E) tr (snd query) of
             Inl err \<Rightarrow> (Some (Wrapf ''querying BlockHeaders'' err), tr)
           | Inr headers \<Rightarrow>
               (case EncodeBlockHeadersPacket66 (rlp E) (fst query, headers) of
                  Inl err \<Rightarrow> (Some (Wrapf ''encode header response'' err), tr)
                | Inr b \<Rightarrow>
                    (let tr1 = tr @ [Ev_SendMessageById sentry (PeerId inreq) BLOCK_HEADERS_66 b]
                     in case SendMessageById (sentryApi E) tr sentry (PeerId inreq) BLOCK_HEADERS_66 b of
                          Some err \<Rightarrow>
                            (if \<not> isPeerNotFoundErr (sentryApi E) err
                             then (Some (Wrapf ''send header response 66'' err), tr1)
                             else (Some (Wrapf ''send header response 66'' err), tr1))
                        | None \<Rightarrow> (None, tr1)))))"

text \<open>\<open>getBlockBodies66\<close>.\<close>

definition getBlockBodies66 ::
  "env \<Rightarrow> MultiClient \<Rightarrow> InboundMessage \<Rightarrow> sentry_client \<Rightarrow> trace \<Rightarrow> error option \<times> trace" where
  "getBlockBodies66 E cs inreq sentry tr =
     (case DecodeGetBlockBodiesPacket66 (rlp E) (Data inreq) of
        Inl err \<Rightarrow> (Some (Wrapf ''decoding getBlockBodies66'' err), tr)
      | Inr query \<Rightarrow>
          (case BeginRo (store E) tr of
             Some err \<Rightarrow> (Some err, tr)
           | None \<Rightarrow>
               (let response = AnswerGetBlockBodiesQuery (store E) tr (snd query)
                in case EncodeBlockBodiesRLPPacket66 (rlp E) (fst query, response) of
                     Inl err \<Rightarrow> (Some (Wrapf ''encode header response'' err), tr)
                   | Inr b \<Rightarrow>
                       (let tr1 = tr @ [Ev_SendMessageById sentry (PeerId inreq) BLOCK_BODIES_66 b]
                        in case SendMessageById (sentryApi E) tr sentry (PeerId inreq) BLOCK_BODIES_66 b of
                             Some err \<Rightarrow>
                               (if isPeerNotFoundErr (sentryApi E) err then (None, tr1)
                                else (Some (Wrapf ''send bodies response'' err), tr1))
                           | None \<Rightarrow> (None, tr1)))))"

text \<open>\<open>getReceipts66\<close>: \<open>receiptsList\<close> is the cached list, or the empty list when there is
  no cached result, and is computed anew when \<open>needMore\<close> holds.\<close>

definition getReceipts66_receiptsList ::
  "env \<Rightarrow> hash list \<Rightarrow> CachedReceipts option \<Rightarrow> bool \<Rightarrow> trace \<Rightarrow> error + bytes list" where
  "getReceipts66_receiptsList E query cachedReceipts needMore tr =
     (let receiptsList = (case cachedReceipts of None \<Rightarrow> [] | Some c \<Rightarrow> EncodedReceipts c)
      in if needMore then
           (case SemaphoreAcquire (store E) tr of
              Some err \<Rightarrow> Inl err
            | None \<Rightarrow>
                (case BeginTemporalRo (store E) tr of
                   Some err \<Rightarrow> Inl err
                 | None \<Rightarrow> AnswerGetReceiptsQuery (store E) tr query cachedReceipts))
         else Inr receiptsList)"

definition getReceipts66 ::
  "env \<Rightarrow> MultiClient \<Rightarrow> InboundMessage \<Rightarrow> sentry_client \<Rightarrow> trace \<Rightarrow> error option \<times> trace" where
  "getReceipts66 E cs inreq sentryClient tr =
     (case DecodeGetReceiptsPacket66 (rlp E) (Data inreq) of
        Inl err \<Rightarrow> (Some (Wrapf ''decoding getReceipts66'' err), tr)
      | Inr query \<Rightarrow>
          (case AnswerGetReceiptsQueryCacheOnly (store E) tr (snd query) of
             Inl err \<Rightarrow> (Some err, tr)
           | Inr (cachedReceipts, needMore) \<Rightarrow>
               (case getReceipts66_receiptsList E (snd query) cachedReceipts needMore tr of
                  Inl err \<Rightarrow> (Some err, tr)
                | Inr receiptsList \<Rightarrow>
                    (case EncodeReceiptsRLPPacket66 (rlp E) (fst query, receiptsList) of
                       Inl err \<Rightarrow> (Some (Wrapf ''encode header response'' err), tr)
                     | Inr b \<Rightarrow>
                         (let tr1 = tr @ [Ev_SendMessageById sentryClient (PeerId inreq) RECEIPTS_66 b]
                          in case SendMessageById (sentryApi E) tr sentryClient (PeerId inreq) RECEIPTS_66 b of
                               Some err \<Rightarrow>
                                 (if isPeerNotFoundErr (sentryApi E) err then (None, tr1)
                                  else (Some (Wrapf ''send receipts response'' err), tr1))
                             | None \<Rightarrow> (None, tr1))))))"

subsection \<open>The header ingest\<close>

text \<open>\<open>newBlockHashes66\<close>: the loop over the announces, then the handler. The request id
  is \<open>rand.Uint64()\<close>.\<close>

fun newBlockHashes66_loop ::
  "env \<Rightarrow> InboundMessage \<Rightarrow> sentry_client \<Rightarrow> Announce list \<Rightarrow> trace \<Rightarrow> error option \<times> trace" where
  "newBlockHashes66_loop E req sentry [] tr = (None, tr)"
| "newBlockHashes66_loop E req sentry (announce # request) tr =
     (let tr1 = tr @ [Ev_SaveExternalAnnounce (AnnounceHash announce)]
      in if HasLink (Hd E) tr1 (AnnounceHash announce)
         then newBlockHashes66_loop E req sentry request tr1
         else
           (case EncodeGetBlockHeadersPacket66 (rlp E)
                   (RandUint64 (store E) tr1,
                    \<lparr>Origin = \<lparr>OriginHash = AnnounceHash announce, OriginNumber = 0\<rparr>,
                     Amount = 1, Skip = 0, Reverse = False\<rparr>) of
              Inl err \<Rightarrow> (Some (Wrapf ''encode header request'' err), tr1)
            | Inr b \<Rightarrow>
                (let tr2 = tr1 @ [Ev_SendMessageById sentry (PeerId req) GET_BLOCK_HEADERS_66 b]
                 in case SendMessageById (sentryApi E) tr1 sentry (PeerId req) GET_BLOCK_HEADERS_66 b of
                      Some err \<Rightarrow>
                        (if isPeerNotFoundErr (sentryApi E) err
                         then newBlockHashes66_loop E req sentry request tr2
                         else (Some (Wrapf ''send header request'' err), tr2))
                    | None \<Rightarrow> newBlockHashes66_loop E req sentry request tr2)))"

definition newBlockHashes66 ::
  "env \<Rightarrow> MultiClient \<Rightarrow> InboundMessage \<Rightarrow> sentry_client \<Rightarrow> trace \<Rightarrow> error option \<times> trace" where
  "newBlockHashes66 E cs req sentry tr =
     (if disableBlockDownload cs then (None, tr)
      else if InitialCycle (Hd E) tr \<and> \<not> FetchingNew (Hd E) tr then (None, tr)
      else
        (case DecodeNewBlockHashesPacket (rlp E) (Data req) of
           Inl err \<Rightarrow> (Some (Wrapf ''decode NewBlockHashes66'' err), tr)
         | Inr request \<Rightarrow> newBlockHashes66_loop E req sentry request tr))"

text \<open>Modelled from the spec: \<open>headerdownload.HeadersSort\<close> and
  \<open>headerdownload.HeadersReverseSort\<close>, the orders that \<open>blockHeaders\<close> hands to
  \<open>sort.Sort\<close>, are declared outside the embedded source. The spec says "sort segments
  ascending by block number" and "sort segments descending by block number"; the order
  of two headers with the same number is left open by it, and is here the one of a
  stable sort.\<close>

definition HeadersSort :: "ChainSegmentHeader list \<Rightarrow> ChainSegmentHeader list" where
  "HeadersSort csHeaders = sort_key Number csHeaders"

definition HeadersReverseSort :: "ChainSegmentHeader list \<Rightarrow> ChainSegmentHeader list" where
  "HeadersReverseSort csHeaders = rev (sort_key Number csHeaders)"

text \<open>The loop of \<open>blockHeaders\<close> over the typed headers: one \<open>rlpStream.Raw()\<close> for each,
  the running maximum \<open>highestBlock\<close>, and the segment headers built so far. \<open>hRaw\<close>, a
  copy of the slice \<open>headerRaw\<close>, holds the same bytes.\<close>

fun blockHeaders_loop ::
  "env \<Rightarrow> Header list \<Rightarrow> stream \<Rightarrow> uint64 \<Rightarrow> ChainSegmentHeader list
     \<Rightarrow> error + (uint64 \<times> ChainSegmentHeader list)" where
  "blockHeaders_loop E [] s highestBlock csHeaders = Inr (highestBlock, csHeaders)"
| "blockHeaders_loop E (header # pkt) s highestBlock csHeaders =
     (case StreamRaw (rlpStream E) s of
        Inl err \<Rightarrow> Inl (Wrapf ''decode 3 BlockHeadersPacket66'' err)
      | Inr (headerRaw, s') \<Rightarrow>
          (let number = Uint64 (HeaderNumber header)
           in blockHeaders_loop E pkt s'
                (if number > highestBlock then number else highestBlock)
                (csHeaders @
                 [\<lparr>HeaderRaw = headerRaw, Header = header,
                   Hash = RawRlpHash (rlpStream E) headerRaw, Number = number\<rparr>])))"

text \<open>The branch of \<open>blockHeaders\<close> taken when \<open>cs.Hd.POSSync()\<close> holds.\<close>

definition blockHeaders_POSSync ::
  "env \<Rightarrow> ChainSegmentHeader list \<Rightarrow> peer_id \<Rightarrow> trace \<Rightarrow> error option \<times> trace" where
  "blockHeaders_POSSync E csHeaders peerID tr =
     (let sorted = HeadersReverseSort csHeaders
      in case BeginTemporalRo (store E) tr of
           Some err \<Rightarrow> (Some err, tr)
         | None \<Rightarrow>
             (let tr1 = tr @ [Ev_ProcessHeadersPOS sorted peerID]
              in case ProcessHeadersPOS (Hd E) tr sorted peerID of
                   Inl err \<Rightarrow> (Some err, tr1)
                 | Inr penalties \<Rightarrow>
                     (if length penalties > 0 then (None, tr1 @ [Ev_Penalize penalties])
                      else (None, tr1))))"

text \<open>The other branch; \<open>5*time.Second\<close> is in nanoseconds.\<close>

definition blockHeaders_requestMore :: "env \<Rightarrow> trace \<Rightarrow> trace" where
  "blockHeaders_requestMore E tr =
     (let currentTime = TimeNow (store E) tr;
          tr1 = tr @ [Ev_RequestMoreHeaders currentTime]
      in case RequestMoreHeaders (Hd E) tr currentTime of
           (req, penalties) \<Rightarrow>
             (let tr2 =
                    (case req of
                       None \<Rightarrow> tr1
                     | Some r \<Rightarrow>
                         (case SendHeaderRequest (sentryApi E) tr1 r of
                            (peer, sentToPeer) \<Rightarrow>
                              (if sentToPeer
                               then tr1 @ [Ev_SendHeaderRequest r, Ev_UpdateStats r False peer,
                                           Ev_UpdateRetryTime r currentTime 5000000000]
                               else tr1 @ [Ev_SendHeaderRequest r])))
              in if length penalties > 0 then tr2 @ [Ev_Penalize penalties] else tr2))"

definition blockHeaders_ProcessHeaders ::
  "env \<Rightarrow> ChainSegmentHeader list \<Rightarrow> peer_id \<Rightarrow> trace \<Rightarrow> trace" where
  "blockHeaders_ProcessHeaders E csHeaders peerID tr =
     (let sorted = HeadersSort csHeaders;
          canRequestMore = ProcessHeaders (Hd E) tr sorted False peerID;
          tr1 = tr @ [Ev_ProcessHeaders sorted False peerID]
      in if canRequestMore then blockHeaders_requestMore E tr1 else tr1)"

text \<open>The call of \<open>PeerMinBlock\<close> that ends \<open>blockHeaders\<close> and \<open>newBlock66\<close>; its error is
  logged.\<close>

definition callPeerMinBlock :: "env \<Rightarrow> sentry_client \<Rightarrow> peer_id \<Rightarrow> uint64 \<Rightarrow> trace \<Rightarrow> trace" where
  "callPeerMinBlock E sentryClient peerID minBlock tr =
     (let tr1 = tr @ [Ev_PeerMinBlock sentryClient peerID minBlock]
      in case PeerMinBlock (sentryApi E) tr sentryClient peerID minBlock of
           Some err1 \<Rightarrow> tr1 @ [Ev_Log LvlError ''Could not send min block for peer'']
         | None \<Rightarrow> tr1)"

definition blockHeaders ::
  "env \<Rightarrow> MultiClient \<Rightarrow> Header list \<Rightarrow> stream \<Rightarrow> peer_id \<Rightarrow> sentry_client \<Rightarrow> trace
     \<Rightarrow> error option \<times> trace" where
  "blockHeaders E cs pkt s peerID sentryClient tr =
     (if disableBlockDownload cs then (None, tr)
      else if length pkt = 0 then (None, tr)
      else
        (case StreamList (rlpStream E) s of
           Inl err \<Rightarrow> (Some (Wrapf ''decode 2 BlockHeadersPacket66'' err), tr)
         | Inr s1 \<Rightarrow>
             (case blockHeaders_loop E pkt s1 0 [] of
                Inl err \<Rightarrow> (Some err, tr)
              | Inr (highestBlock, csHeaders) \<Rightarrow>
                  (if POSSync (Hd E) tr
                   then
                     (case blockHeaders_POSSync E csHeaders peerID tr of
                        (Some err, tr1) \<Rightarrow> (Some err, tr1)
                      | (None, tr1) \<Rightarrow>
                          (None, callPeerMinBlock E sentryClient peerID highestBlock tr1))
                   else
                     (None, callPeerMinBlock E sentryClient peerID highestBlock
                              (blockHeaders_ProcessHeaders E csHeaders peerID tr))))))"

definition blockHeaders66 ::
  "env \<Rightarrow> MultiClient \<Rightarrow> InboundMessage \<Rightarrow> sentry_client \<Rightarrow> trace \<Rightarrow> error option \<times> trace" where
  "blockHeaders66 E cs inmsg sentry tr =
     (case DecodeBlockHeadersPacket66 (rlp E) (Data inmsg) of
        Inl err \<Rightarrow> (Some (Wrapf ''decode 1 BlockHeadersPacket66'' err), tr)
      | Inr pkt \<Rightarrow>
          (case StreamList (rlpStream E) (NewStream (Data inmsg)) of
             Inl err \<Rightarrow> (Some (Wrapf ''decode 1 BlockHeadersPacket66'' err), tr)
           | Inr s1 \<Rightarrow>
               (case StreamUint (rlpStream E) s1 of
                  Inl err \<Rightarrow> (Some (Wrapf ''decode 2 BlockHeadersPacket66'' err), tr)
                | Inr (requestId, s2) \<Rightarrow> blockHeaders E cs (snd pkt) s2 (PeerId inmsg) sentry tr)))"

text \<open>A handler returns its error, or nil, or panics.\<close>

datatype outcome = Return "error option" | Panic string

text \<open>\<open>newBlock66\<close>, the branch of \<open>penalty == headerdownload.NoPenalty\<close>. Reading
  \<open>segments[0]\<close> of an empty slice panics.\<close>

definition newBlock66_propagate ::
  "env \<Rightarrow> MultiClient \<Rightarrow> ChainSegmentHeader list \<Rightarrow> trace \<Rightarrow> string + bool" where
  "newBlock66_propagate E cs segments tr =
     (let propagate = \<not> TerminalTotalDifficultyPassed cs
      in case FirstPoSHeight (Hd E) tr of
           None \<Rightarrow> Inr propagate
         | Some firstPosSeen \<Rightarrow>
             (if propagate
              then (case segments of
                      [] \<Rightarrow> Inl ''index out of range [0] with length 0''
                    | s0 # _ \<Rightarrow> Inr (firstPosSeen \<ge> Number s0))
              else Inr propagate))"

definition newBlock66_NoPenalty ::
  "env \<Rightarrow> MultiClient \<Rightarrow> InboundMessage \<Rightarrow> ChainSegmentHeader list \<Rightarrow> trace \<Rightarrow> string option \<times> trace" where
  "newBlock66_NoPenalty E cs inreq segments tr =
     (case newBlock66_propagate E cs segments tr of
        Inl p \<Rightarrow> (Some p, tr)
      | Inr propagate \<Rightarrow>
          (if \<not> IsMock cs \<and> propagate
           then (case segments of
                   [] \<Rightarrow> (Some ''index out of range [0] with length 0'', tr)
                 | s0 # _ \<Rightarrow>
                     (None,
                      tr @ [Ev_PropagateNewBlockHashes
                              [\<lparr>AnnounceHash = Hash s0, AnnounceNumber = Number s0\<rparr>],
                            Ev_ProcessHeaders segments True (PeerId inreq)]))
           else (None, tr @ [Ev_ProcessHeaders segments True (PeerId inreq)])))"

text \<open>The other branch: the loop over \<open>cs.sentries\<close>.\<close>

fun newBlock66_penalize :: "env \<Rightarrow> InboundMessage \<Rightarrow> sentry_client list \<Rightarrow> trace \<Rightarrow> trace" where
  "newBlock66_penalize E inreq [] tr = tr"
| "newBlock66_penalize E inreq (sentry # rest) tr =
     (if NotReadyDirect (sentryApi E) tr sentry then newBlock66_penalize E inreq rest tr
      else
        (let tr1 = tr @ [Ev_PenalizePeer sentry (PeerId inreq) Kick]
         in case PenalizePeer (sentryApi E) tr sentry (PeerId inreq) Kick of
              Some err1 \<Rightarrow>
                newBlock66_penalize E inreq rest (tr1 @ [Ev_Log LvlError ''Could not send penalty''])
            | None \<Rightarrow> newBlock66_penalize E inreq rest tr1))"

text \<open>What follows the two branches: the prefetch of the body, \<open>PeerMinBlock\<close> and the
  trace message.\<close>

definition newBlock66_finish ::
  "env \<Rightarrow> InboundMessage \<Rightarrow> sentry_client \<Rightarrow> NewBlockPacket \<Rightarrow> trace \<Rightarrow> trace" where
  "newBlock66_finish E inreq sentryClient request tr =
     callPeerMinBlock E sentryClient (PeerId inreq) (NumberU64 (NewBlock request))
       (tr @ [Ev_AddToPrefetch (BlockHeader (NewBlock request)) (BlockRawBody (NewBlock request))])
     @ [Ev_Log LvlTrace ''NewBlockMsg'']"

definition newBlock66_segment ::
  "env \<Rightarrow> MultiClient \<Rightarrow> InboundMessage \<Rightarrow> sentry_client \<Rightarrow> bytes \<Rightarrow> NewBlockPacket \<Rightarrow> trace
     \<Rightarrow> outcome \<times> trace" where
  "newBlock66_segment E cs inreq sentryClient headerRaw request tr =
     (let tr1 = tr @ [Ev_SingleHeaderAsSegment headerRaw (BlockHeader (NewBlock request)) True]
      in case SingleHeaderAsSegment (Hd E) tr headerRaw (BlockHeader (NewBlock request)) True of
           Inl err \<Rightarrow> (Return (Some (Wrapf ''singleHeaderAsSegment failed'' err)), tr1)
         | Inr (segments, penalty) \<Rightarrow>
             (if penalty = NoPenalty
              then (case newBlock66_NoPenalty E cs inreq segments tr1 of
                      (Some p, tr2) \<Rightarrow> (Panic p, tr2)
                    | (None, tr2) \<Rightarrow>
                        (Return None, newBlock66_finish E inreq sentryClient request tr2))
              else (Return None,
                    newBlock66_finish E inreq sentryClient request
                      (newBlock66_penalize E inreq (sentries cs) tr1))))"

definition newBlock66 ::
  "env \<Rightarrow> MultiClient \<Rightarrow> InboundMessage \<Rightarrow> sentry_client \<Rightarrow> trace \<Rightarrow> outcome \<times> trace" where
  "newBlock66 E cs inreq sentryClient tr =
     (if disableBlockDownload cs then (Return None, tr)
      else
        (case StreamList (rlpStream E) (NewStream (Data inreq)) of
           Inl err \<Rightarrow> (Return (Some (Wrapf ''decode 1 NewBlockMsg'' err)), tr)
         | Inr s1 \<Rightarrow>
        (case StreamList (rlpStream E) s1 of
           Inl err \<Rightarrow> (Return (Some (Wrapf ''decode 2 NewBlockMsg'' err)), tr)
         | Inr s2 \<Rightarrow>
        (case StreamRaw (rlpStream E) s2 of
           Inl err \<Rightarrow> (Return (Some (Wrapf ''decode 3 NewBlockMsg'' err)), tr)
         | Inr (headerRaw, s3) \<Rightarrow>
        (case DecodeNewBlockPacket (rlp E) (Data inreq) of
           Inl err \<Rightarrow> (Return (Some (Wrapf ''decode 4 NewBlockMsg'' err)), tr)
         | Inr request \<Rightarrow>
        (case SanityCheck (store E) request of
           Some err \<Rightarrow> (Return (Some (Wrapf ''newBlock66'' err)), tr)
         | None \<Rightarrow>
        (case HashCheck (store E) (NewBlock request) of
           Some err \<Rightarrow> (Return (Some (Wrapf ''newBlock66'' err)), tr)
         | None \<Rightarrow> newBlock66_segment E cs inreq sentryClient headerRaw request tr)))))))"

subsection \<open>The body ingest\<close>

text \<open>Modelled from the spec: \<open>BlockRawBodiesPacket.Unpack\<close> of package \<open>eth\<close> is declared
  outside the embedded source. The spec says "unpack into (txs, uncles, withdrawals)":
  the three parts of the bodies, one entry for each body.\<close>

definition Unpack :: "RawBody list \<Rightarrow> bytes list list \<times> Header list list \<times> bytes list list" where
  "Unpack p = (map Transactions p, map Uncles p, map Withdrawals p)"

definition blockBodies66 ::
  "env \<Rightarrow> MultiClient \<Rightarrow> InboundMessage \<Rightarrow> sentry_client \<Rightarrow> trace \<Rightarrow> error option \<times> trace" where
  "blockBodies66 E cs inreq sentryClient tr =
     (if disableBlockDownload cs then (None, tr)
      else
        (case DecodeBlockRawBodiesPacket66 (rlp E) (Data inreq) of
           Inl err \<Rightarrow> (Some (Wrapf ''decode BlockBodiesPacket66'' err), tr)
         | Inr request \<Rightarrow>
             (case Unpack (snd request) of
                (txs, uncles, withdrawals) \<Rightarrow>
                  (if length txs = 0 \<and> length uncles = 0 \<and> length withdrawals = 0 then (None, tr)
                   else (None,
                         tr @ [Ev_DeliverBodies txs uncles withdrawals
                                 (of_nat (length (Data inreq))) (PeerId inreq)])))))"

definition receipts66 ::
  "env \<Rightarrow> MultiClient \<Rightarrow> InboundMessage \<Rightarrow> sentry_client \<Rightarrow> trace \<Rightarrow> error option \<times> trace" where
  "receipts66 E cs inreq sentryClient tr = (None, tr)"

subsection \<open>The dispatcher\<close>

definition returned :: "error option \<times> trace \<Rightarrow> outcome \<times> trace" where
  "returned r = (Return (fst r), snd r)"

fun handleInboundMessage_switch ::
  "MessageId \<Rightarrow> env \<Rightarrow> MultiClient \<Rightarrow> InboundMessage \<Rightarrow> sentry_client \<Rightarrow> trace \<Rightarrow> outcome \<times> trace" where
  "handleInboundMessage_switch NEW_BLOCK_HASHES_66 E cs inreq sentry tr =
     returned (newBlockHashes66 E cs inreq sentry tr)"
| "handleInboundMessage_switch BLOCK_HEADERS_66 E cs inreq sentry tr =
     returned (blockHeaders66 E cs inreq sentry tr)"
| "handleInboundMessage_switch NEW_BLOCK_66 E cs inreq sentry tr =
     newBlock66 E cs inreq sentry tr"
| "handleInboundMessage_switch BLOCK_BODIES_66 E cs inreq sentry tr =
     returned (blockBodies66 E cs inreq sentry tr)"
| "handleInboundMessage_switch GET_BLOCK_HEADERS_66 E cs inreq sentry tr =
     returned (getBlockHeaders66 E cs inreq sentry tr)"
| "handleInboundMessage_switch GET_BLOCK_BODIES_66 E cs inreq sentry tr =
     returned (getBlockBodies66 E cs inreq sentry tr)"
| "handleInboundMessage_switch RECEIPTS_66 E cs inreq sentry tr =
     returned (receipts66 E cs inreq sentry tr)"
| "handleInboundMessage_switch GET_RECEIPTS_66 E cs inreq sentry tr =
     returned (getReceipts66 E cs inreq sentry tr)"
| "handleInboundMessage_switch (OTHER_MESSAGE n) E cs inreq sentry tr =
     (Return (Some (Error ''not implemented for message Id'')), tr)"

definition handleInboundMessage ::
  "env \<Rightarrow> MultiClient \<Rightarrow> InboundMessage \<Rightarrow> sentry_client \<Rightarrow> trace \<Rightarrow> outcome \<times> trace" where
  "handleInboundMessage E cs inreq sentry tr =
     handleInboundMessage_switch (msgId inreq) E cs inreq sentry tr"

text \<open>\<open>HandleInboundMessage\<close>: a panic of the handler is recovered into the returned
  error, and skips what follows the call of the handler.\<close>

definition HandleInboundMessage ::
  "env \<Rightarrow> MultiClient \<Rightarrow> InboundMessage \<Rightarrow> sentry_client \<Rightarrow> trace \<Rightarrow> error option \<times> trace" where
  "HandleInboundMessage E cs message sentry tr =
     (case handleInboundMessage E cs message sentry tr of
        (Panic rec, tr1) \<Rightarrow> (Some (Recovered rec (msgId message)), tr1)
      | (Return None, tr1) \<Rightarrow> (None, tr1)
      | (Return (Some err), tr1) \<Rightarrow>
          (if IsInvalidRLPError (rlp E) err
           then
             (let tr2 = tr1 @ [Ev_Log LvlDebug ''Kick peer for invalid RLP''];
                  tr3 = tr2 @ [Ev_PenalizePeer sentry (PeerId message) Kick]
              in case PenalizePeer (sentryApi E) tr2 sentry (PeerId message) Kick of
                   Some err1 \<Rightarrow> (Some err, tr3 @ [Ev_Log LvlError ''Could not send penalty''])
                 | None \<Rightarrow> (Some err, tr3))
           else (Some err, tr1)))"

subsection \<open>Reading a history\<close>

text \<open>\<open>since tr tr'\<close> is what a handler started at the history \<open>tr\<close> has appended when
  it ends at \<open>tr'\<close>. A penalty is a \<open>PenalizePeer\<close> on a sentry or a call of
  \<open>cs.Penalize\<close>.\<close>

definition since :: "trace \<Rightarrow> trace \<Rightarrow> trace" where
  "since tr tr' = drop (length tr) tr'"

fun isPenalty :: "event \<Rightarrow> bool" where
  "isPenalty (Ev_PenalizePeer s p k) = True"
| "isPenalty (Ev_Penalize ps) = True"
| "isPenalty _ = False"

fun isPeerMinBlock :: "event \<Rightarrow> bool" where
  "isPeerMinBlock (Ev_PeerMinBlock s p n) = True"
| "isPeerMinBlock _ = False"

fun isPropagate :: "event \<Rightarrow> bool" where
  "isPropagate (Ev_PropagateNewBlockHashes a) = True"
| "isPropagate _ = False"

fun isProcessHeaders :: "event \<Rightarrow> bool" where
  "isProcessHeaders (Ev_ProcessHeaders segs newBlock p) = True"
| "isProcessHeaders (Ev_ProcessHeadersPOS segs p) = True"
| "isProcessHeaders _ = False"

text \<open>Events that neither hand headers to the downloader nor report a minimum block.\<close>

definition quiet :: "event list \<Rightarrow> bool" where
  "quiet evs = (\<forall>e \<in> set evs. \<not> isProcessHeaders e \<and> \<not> isPeerMinBlock e)"

subsection \<open>The second pass over a \<open>BlockHeaders66\<close> message\<close>

text \<open>The specification words the second pass as: enter the outer list, read the request
  id, enter the list of headers, and for each header capture its raw RLP slice before
  advancing. \<open>StreamRaws R s n\<close> are the \<open>n\<close> slices that \<open>n\<close> calls of \<open>Raw\<close> return from
  the stream \<open>s\<close>, \<open>blockHeaders66_raws\<close> is the whole pass, and \<open>segmentHeader\<close> is the
  \<open>ChainSegmentHeader\<close> of a typed header and a raw slice.\<close>

fun StreamRaws :: "rlp_stream \<Rightarrow> stream \<Rightarrow> nat \<Rightarrow> bytes list option" where
  "StreamRaws R s 0 = Some []"
| "StreamRaws R s (Suc n) =
     (case StreamRaw R s of
        Inl err \<Rightarrow> None
      | Inr (raw, s') \<Rightarrow>
          (case StreamRaws R s' n of None \<Rightarrow> None | Some raws \<Rightarrow> Some (raw # raws)))"

definition blockHeaders66_raws :: "env \<Rightarrow> bytes \<Rightarrow> nat \<Rightarrow> bytes list option" where
  "blockHeaders66_raws E data n =
     (case StreamList (rlpStream E) (NewStream data) of
        Inl err \<Rightarrow> None
      | Inr s1 \<Rightarrow>
          (case StreamUint (rlpStream E) s1 of
             Inl err \<Rightarrow> None
           | Inr (requestId, s2) \<Rightarrow>
               (case StreamList (rlpStream E) s2 of
                  Inl err \<Rightarrow> None
                | Inr s3 \<Rightarrow> StreamRaws (rlpStream E) s3 n)))"

definition segmentHeader :: "rlp_stream \<Rightarrow> Header \<Rightarrow> bytes \<Rightarrow> ChainSegmentHeader" where
  "segmentHeader R header raw =
     \<lparr>HeaderRaw = raw, Header = header, Hash = RawRlpHash R raw,
      Number = Uint64 (HeaderNumber header)\<rparr>"

subsection \<open>The steps of \<open>newBlockHashes66\<close>\<close>

text \<open>What the specification asks for one announce, at the history \<open>tr\<close>: the announce is
  recorded; when the downloader then has a link for the hash nothing else happens, and
  otherwise one \<open>GetBlockHeaders66\<close> request for one header by the announced hash, with
  \<open>amount = 1\<close>, \<open>skip = 0\<close>, \<open>reverse = false\<close> and a random request id, is sent to the
  announcing peer. \<open>announce_steps\<close> chains the steps of the announces of a packet, each
  at the history that the steps before it have left.\<close>

definition announce_step ::
  "env \<Rightarrow> InboundMessage \<Rightarrow> sentry_client \<Rightarrow> trace \<Rightarrow> Announce \<Rightarrow> event list \<Rightarrow> bool" where
  "announce_step E req sentry tr announce evs =
     (let tr1 = tr @ [Ev_SaveExternalAnnounce (AnnounceHash announce)]
      in if HasLink (Hd E) tr1 (AnnounceHash announce)
         then evs = [Ev_SaveExternalAnnounce (AnnounceHash announce)]
         else
           (case EncodeGetBlockHeadersPacket66 (rlp E)
                   (RandUint64 (store E) tr1,
                    \<lparr>Origin = \<lparr>OriginHash = AnnounceHash announce, OriginNumber = 0\<rparr>,
                     Amount = 1, Skip = 0, Reverse = False\<rparr>) of
              Inl err \<Rightarrow> False
            | Inr b \<Rightarrow>
                evs = [Ev_SaveExternalAnnounce (AnnounceHash announce),
                       Ev_SendMessageById sentry (PeerId req) GET_BLOCK_HEADERS_66 b]))"

fun announce_steps ::
  "env \<Rightarrow> InboundMessage \<Rightarrow> sentry_client \<Rightarrow> trace \<Rightarrow> Announce list \<Rightarrow> event list list \<Rightarrow> bool" where
  "announce_steps E req sentry tr [] [] = True"
| "announce_steps E req sentry tr (announce # request) (evs # steps) =
     (announce_step E req sentry tr announce evs \<and>
      announce_steps E req sentry (tr @ evs) request steps)"
| "announce_steps E req sentry tr request steps = False"

subsection \<open>A mock environment\<close>

text \<open>Collaborators for running the handlers on concrete messages: every decoder rejects
  its input unless a scenario replaces it, the stream reads items that start with their
  length, every call on a sentry and on the store succeeds, and the downloader accepts
  what it is given. \<open>rootCause\<close> unwraps an error down to the error first raised.\<close>

fun rootCause :: "error \<Rightarrow> error" where
  "rootCause (Wrapf s e) = rootCause e"
| "rootCause e = e"

definition mock_rlp :: rlp_codec where
  "mock_rlp = \<lparr>
     IsInvalidRLPError = (\<lambda>e. rootCause e = Error ''rlp: expected List''),
     DecodeNewBlockHashesPacket = (\<lambda>d. Inl (Error ''rlp: expected List'')),
     DecodeBlockHeadersPacket66 = (\<lambda>d. Inl (Error ''rlp: expected List'')),
     DecodeNewBlockPacket = (\<lambda>d. Inl (Error ''rlp: expected List'')),
     DecodeBlockRawBodiesPacket66 = (\<lambda>d. Inl (Error ''rlp: expected List'')),
     DecodeGetBlockHeadersPacket66 = (\<lambda>d. Inl (Error ''rlp: expected List'')),
     DecodeGetBlockBodiesPacket66 = (\<lambda>d. Inl (Error ''rlp: expected List'')),
     DecodeGetReceiptsPacket66 = (\<lambda>d. Inl (Error ''rlp: expected List'')),
     EncodeGetBlockHeadersPacket66 = (\<lambda>p. Inr (ucast (fst p) # OriginHash (Origin (snd p)))),
     EncodeBlockHeadersPacket66 =
       (\<lambda>p. Inr (ucast (fst p) # map (\<lambda>h. ucast (Uint64 (HeaderNumber h))) (snd p))),
     EncodeBlockBodiesRLPPacket66 = (\<lambda>p. Inr (ucast (fst p) # concat (snd p))),
     EncodeReceiptsRLPPacket66 = (\<lambda>p. Inr (ucast (fst p) # concat (snd p)))\<rparr>"

definition mock_List :: "stream \<Rightarrow> error + stream" where
  "mock_List s = (case fst s of [] \<Rightarrow> Inl (Error ''EOF'') | x # d \<Rightarrow> Inr (d, unat x # snd s))"

definition mock_Uint :: "stream \<Rightarrow> error + (uint64 \<times> stream)" where
  "mock_Uint s = (case fst s of [] \<Rightarrow> Inl (Error ''EOF'') | x # d \<Rightarrow> Inr (ucast x, (d, snd s)))"

definition mock_Raw :: "stream \<Rightarrow> error + (bytes \<times> stream)" where
  "mock_Raw s =
     (case fst s of
        [] \<Rightarrow> Inl (Error ''EOF'')
      | x # d \<Rightarrow>
          (if unat x \<le> length d then Inr (x # take (unat x) d, (drop (unat x) d, snd s))
           else Inl (Error ''rlp: value size exceeds available input length'')))"

definition mock_rlpStream :: rlp_stream where
  "mock_rlpStream =
     \<lparr>StreamList = mock_List, StreamUint = mock_Uint, StreamRaw = mock_Raw, RawRlpHash = rev\<rparr>"

definition mock_Hd :: header_download where
  "mock_Hd = \<lparr>
     InitialCycle = (\<lambda>tr. False),
     FetchingNew = (\<lambda>tr. True),
     HasLink = (\<lambda>tr h. False),
     POSSync = (\<lambda>tr. False),
     ProcessHeaders = (\<lambda>tr segs newBlock peer. False),
     ProcessHeadersPOS = (\<lambda>tr segs peer. Inr []),
     RequestMoreHeaders = (\<lambda>tr t. (None, [])),
     SingleHeaderAsSegment =
       (\<lambda>tr raw h penalizePoSBlocks.
          Inr ([\<lparr>HeaderRaw = raw, Header = h, Hash = rev raw,
                  Number = Uint64 (HeaderNumber h)\<rparr>], NoPenalty)),
     FirstPoSHeight = (\<lambda>tr. None)\<rparr>"

definition mock_sentryApi :: sentry_api where
  "mock_sentryApi = \<lparr>
     SendMessageById = (\<lambda>tr s p m b. None),
     PenalizePeer = (\<lambda>tr s p k. None),
     PeerMinBlock = (\<lambda>tr s p n. None),
     NotReadyDirect = (\<lambda>tr s. False),
     SendHeaderRequest = (\<lambda>tr r. ([], False)),
     isPeerNotFoundErr = (\<lambda>e. rootCause e = Error ''peer not found'')\<rparr>"

definition mock_store :: chain_store where
  "mock_store = \<lparr>
     BeginTemporalRo = (\<lambda>tr. None),
     BeginRo = (\<lambda>tr. None),
     ViewAnswerGetBlockHeadersQuery = (\<lambda>tr q. Inr []),
     AnswerGetBlockBodiesQuery = (\<lambda>tr hs. []),
     AnswerGetReceiptsQueryCacheOnly = (\<lambda>tr hs. Inr (None, False)),
     AnswerGetReceiptsQuery = (\<lambda>tr hs c. Inr []),
     SemaphoreAcquire = (\<lambda>tr. None),
     SanityCheck = (\<lambda>p. None),
     HashCheck = (\<lambda>b. None),
     TimeNow = (\<lambda>tr. length tr),
     RandUint64 = (\<lambda>tr. of_nat (length tr))\<rparr>"

definition mock_env :: env where
  "mock_env = \<lparr>rlp = mock_rlp, rlpStream = mock_rlpStream, Hd = mock_Hd,
                sentryApi = mock_sentryApi, store = mock_store\<rparr>"

definition mock_cs :: MultiClient where
  "mock_cs = \<lparr>IsMock = False, sentries = [0, 1], TerminalTotalDifficultyPassed = False,
               disableBlockDownload = False\<rparr>"

text \<open>The scenarios of the specification. S2: a \<open>GetBlockHeaders66\<close> query with request id
  7 for ten headers from block 9999999999, against a store without headers. S3: a
  \<open>BlockBodies66\<close> message that does not decode. The last environment is S2 with a sentry
  that has lost the peer, and a \<open>GetBlockBodies66\<close> query that decodes.\<close>

definition s2_env :: env where
  "s2_env = mock_env\<lparr>rlp := mock_rlp\<lparr>DecodeGetBlockHeadersPacket66 :=
     (\<lambda>d. Inr (7, \<lparr>Origin = \<lparr>OriginHash = [], OriginNumber = 9999999999\<rparr>,
                    Amount = 10, Skip = 0, Reverse = False\<rparr>))\<rparr>\<rparr>"

definition s2_msg :: InboundMessage where
  "s2_msg = \<lparr>msgId = GET_BLOCK_HEADERS_66, Data = [0xC2, 0x07, 0xC0], PeerId = [0x01]\<rparr>"

definition s3_msg :: InboundMessage where
  "s3_msg = \<lparr>msgId = BLOCK_BODIES_66, Data = [0x0C, 0x0C, 0x0B, 0xAD], PeerId = [0x02]\<rparr>"

definition peerGone_env :: env where
  "peerGone_env =
     mock_env\<lparr>rlp := mock_rlp\<lparr>
                 DecodeGetBlockHeadersPacket66 :=
                   (\<lambda>d. Inr (7, \<lparr>Origin = \<lparr>OriginHash = [], OriginNumber = 9999999999\<rparr>,
                                  Amount = 10, Skip = 0, Reverse = False\<rparr>)),
                 DecodeGetBlockBodiesPacket66 := (\<lambda>d. Inr (7, []))\<rparr>,
              sentryApi := mock_sentryApi\<lparr>
                 SendMessageById := (\<lambda>tr s p m b. Some (Error ''peer not found''))\<rparr>\<rparr>"

text \<open>S1: a \<open>NewBlockHashes66\<close> packet that announces one unknown hash at height 100.\<close>

definition s1_env :: env where
  "s1_env = mock_env\<lparr>rlp := mock_rlp\<lparr>DecodeNewBlockHashesPacket :=
     (\<lambda>d. Inr [\<lparr>AnnounceHash = [0xAA], AnnounceNumber = 100\<rparr>])\<rparr>\<rparr>"

definition s1_msg :: InboundMessage where
  "s1_msg = \<lparr>msgId = NEW_BLOCK_HASHES_66, Data = [3, 2, 0xAA, 100], PeerId = [0x04]\<rparr>"


text \<open>S4: a \<open>BlockHeaders66\<close> packet with the block numbers 8, 11, 10, before and after
  the merge; \<open>s4_segment n\<close> is the segment header that the handler builds for the header
  with number \<open>n\<close>. Then a packet with two different headers of the same number 5.\<close>

definition s4_env :: env where
  "s4_env = mock_env\<lparr>rlp := mock_rlp\<lparr>DecodeBlockHeadersPacket66 :=
     (\<lambda>d. Inr (1, [\<lparr>HeaderNumber = 8, HeaderFields = []\<rparr>,
                    \<lparr>HeaderNumber = 11, HeaderFields = []\<rparr>,
                    \<lparr>HeaderNumber = 10, HeaderFields = []\<rparr>]))\<rparr>\<rparr>"

definition s4_pos_env :: env where
  "s4_pos_env = s4_env\<lparr>Hd := mock_Hd\<lparr>POSSync := (\<lambda>tr. True)\<rparr>\<rparr>"

definition s4_msg :: InboundMessage where
  "s4_msg = \<lparr>msgId = BLOCK_HEADERS_66, Data = [8, 1, 6, 1, 8, 1, 11, 1, 10], PeerId = [0x03]\<rparr>"

definition s4_segment :: "int \<Rightarrow> ChainSegmentHeader" where
  "s4_segment n = \<lparr>HeaderRaw = [1, word_of_int n],
                   Header = \<lparr>HeaderNumber = n, HeaderFields = []\<rparr>,
                   Hash = [word_of_int n, 1], Number = word_of_int n\<rparr>"

definition dup_env :: env where
  "dup_env = mock_env\<lparr>rlp := mock_rlp\<lparr>DecodeBlockHeadersPacket66 :=
     (\<lambda>d. Inr (1, [\<lparr>HeaderNumber = 5, HeaderFields = [0xAA]\<rparr>,
                    \<lparr>HeaderNumber = 5, HeaderFields = [0xBB]\<rparr>]))\<rparr>\<rparr>"

definition dup_pos_env :: env where
  "dup_pos_env = dup_env\<lparr>Hd := mock_Hd\<lparr>POSSync := (\<lambda>tr. True)\<rparr>\<rparr>"

definition dup_msg :: InboundMessage where
  "dup_msg = \<lparr>msgId = BLOCK_HEADERS_66, Data = [8, 1, 6, 2, 5, 0xAA, 2, 5, 0xBB], PeerId = [0x03]\<rparr>"

definition dup_segments :: "ChainSegmentHeader list" where
  "dup_segments =
     [\<lparr>HeaderRaw = [2, 5, 0xAA], Header = \<lparr>HeaderNumber = 5, HeaderFields = [0xAA]\<rparr>,
       Hash = [0xAA, 5, 2], Number = 5\<rparr>,
      \<lparr>HeaderRaw = [2, 5, 0xBB], Header = \<lparr>HeaderNumber = 5, HeaderFields = [0xBB]\<rparr>,
       Hash = [0xBB, 5, 2], Number = 5\<rparr>]"

text \<open>A packet whose first header has the number \<open>2^64 + 5\<close>, which \<open>Number.Uint64()\<close> reads
  as 5, and whose second header has the number 7.\<close>

definition wrap_packet :: "Header list" where
  "wrap_packet = [\<lparr>HeaderNumber = 18446744073709551621, HeaderFields = []\<rparr>,
                  \<lparr>HeaderNumber = 7, HeaderFields = []\<rparr>]"

definition wrap_env :: env where
  "wrap_env = mock_env\<lparr>rlp := mock_rlp\<lparr>DecodeBlockHeadersPacket66 := (\<lambda>d. Inr (1, wrap_packet))\<rparr>\<rparr>"

definition wrap_msg :: InboundMessage where
  "wrap_msg = \<lparr>msgId = BLOCK_HEADERS_66, Data = [8, 1, 6, 1, 5, 1, 7], PeerId = [0x03]\<rparr>"

definition wrap_segments :: "ChainSegmentHeader list" where
  "wrap_segments =
     [\<lparr>HeaderRaw = [1, 5], Header = \<lparr>HeaderNumber = 18446744073709551621, HeaderFields = []\<rparr>,
       Hash = [5, 1], Number = 5\<rparr>,
      \<lparr>HeaderRaw = [1, 7], Header = \<lparr>HeaderNumber = 7, HeaderFields = []\<rparr>,
       Hash = [7, 1], Number = 7\<rparr>]"

text \<open>A \<open>NewBlock66\<close> message with block 10: by a downloader that has observed its first
  PoS block at height 10, at height 9, and by a downloader that answers with a penalty.\<close>

definition block10 :: Block where
  "block10 = \<lparr>BlockHeader = \<lparr>HeaderNumber = 10, HeaderFields = []\<rparr>,
              BlockRawBody = \<lparr>Transactions = [[0x01]], Uncles = [], Withdrawals = []\<rparr>\<rparr>"

definition newBlock_msg :: InboundMessage where
  "newBlock_msg = \<lparr>msgId = NEW_BLOCK_66, Data = [5, 3, 1, 10, 1, 0], PeerId = [0x05]\<rparr>"

definition pos10_env :: env where
  "pos10_env =
     mock_env\<lparr>rlp := mock_rlp\<lparr>DecodeNewBlockPacket := (\<lambda>d. Inr \<lparr>NewBlock = block10, TD = 0\<rparr>)\<rparr>,
              Hd := mock_Hd\<lparr>FirstPoSHeight := (\<lambda>tr. Some 10)\<rparr>\<rparr>"

definition penalty_env :: env where
  "penalty_env =
     mock_env\<lparr>rlp := mock_rlp\<lparr>DecodeNewBlockPacket := (\<lambda>d. Inr \<lparr>NewBlock = block10, TD = 0\<rparr>)\<rparr>,
              Hd := mock_Hd\<lparr>SingleHeaderAsSegment :=
                      (\<lambda>tr raw h penalizePoSBlocks. Inr ([], OtherPenalty 1))\<rparr>\<rparr>"

definition pos9_env :: env where
  "pos9_env =
     mock_env\<lparr>rlp := mock_rlp\<lparr>DecodeNewBlockPacket := (\<lambda>d. Inr \<lparr>NewBlock = block10, TD = 0\<rparr>)\<rparr>,
              Hd := mock_Hd\<lparr>FirstPoSHeight := (\<lambda>tr. Some 9)\<rparr>\<rparr>"

section \<open>Properties\<close>

lemmas mock_defs = mock_env_def mock_rlp_def mock_rlpStream_def mock_Hd_def mock_sentryApi_def
  mock_store_def mock_cs_def mock_List_def mock_Uint_def mock_Raw_def NewStream_def

subsection \<open>A handler that returns an error has sent no penalty\<close>

lemma newBlockHashes66_loop_no_penalty:
  "\<exists>new. snd (newBlockHashes66_loop E req sentry request tr) = tr @ new \<and> filter isPenalty new = []"
proof (induction request arbitrary: tr)
  case Nil
  show ?case by simp
next
  case (Cons a request)
  let ?tr1 = "tr @ [Ev_SaveExternalAnnounce (AnnounceHash a)]"
  obtain n1 where n1: "snd (newBlockHashes66_loop E req sentry request ?tr1) = ?tr1 @ n1"
    "filter isPenalty n1 = []" using Cons.IH by blast
  show ?case
  proof (cases "HasLink (Hd E) ?tr1 (AnnounceHash a)")
    case True
    then show ?thesis using n1 by (simp add: Let_def)
  next
    case False
    show ?thesis
    proof (cases "EncodeGetBlockHeadersPacket66 (rlp E)
                   (RandUint64 (store E) ?tr1,
                    \<lparr>Origin = \<lparr>OriginHash = AnnounceHash a, OriginNumber = 0\<rparr>,
                     Amount = 1, Skip = 0, Reverse = False\<rparr>)")
      case (Inl err)
      then show ?thesis using False by (simp add: Let_def)
    next
      case (Inr b)
      let ?tr2 = "?tr1 @ [Ev_SendMessageById sentry (PeerId req) GET_BLOCK_HEADERS_66 b]"
      obtain n2 where n2: "snd (newBlockHashes66_loop E req sentry request ?tr2) = ?tr2 @ n2"
        "filter isPenalty n2 = []" using Cons.IH by blast
      show ?thesis using False Inr n2
        by (simp add: Let_def split: option.splits)
    qed
  qed
qed

lemma newBlockHashes66_no_penalty:
  "\<exists>new. snd (newBlockHashes66 E cs req sentry tr) = tr @ new \<and> filter isPenalty new = []"
  using newBlockHashes66_loop_no_penalty
  by (simp add: newBlockHashes66_def split: sum.splits)

lemma getBlockHeaders66_no_penalty:
  "\<exists>new. snd (getBlockHeaders66 E cs req sentry tr) = tr @ new \<and> filter isPenalty new = []"
  by (simp add: getBlockHeaders66_def Let_def split: sum.splits option.splits)

lemma getBlockBodies66_no_penalty:
  "\<exists>new. snd (getBlockBodies66 E cs req sentry tr) = tr @ new \<and> filter isPenalty new = []"
  by (simp add: getBlockBodies66_def Let_def split: sum.splits option.splits)

lemma getReceipts66_no_penalty:
  "\<exists>new. snd (getReceipts66 E cs req sentry tr) = tr @ new \<and> filter isPenalty new = []"
  by (simp add: getReceipts66_def Let_def split: sum.splits option.splits prod.splits)

lemma blockBodies66_no_penalty:
  "\<exists>new. snd (blockBodies66 E cs req sentry tr) = tr @ new \<and> filter isPenalty new = []"
  by (simp add: blockBodies66_def Let_def split: sum.splits option.splits prod.splits)

lemma blockHeaders_POSSync_error:
  "blockHeaders_POSSync E csHeaders peerID tr = (Some err, tr1) \<Longrightarrow>
     \<exists>new. tr1 = tr @ new \<and> filter isPenalty new = []"
  by (auto simp: blockHeaders_POSSync_def Let_def split: sum.splits option.splits if_splits)

lemma blockHeaders_error:
  "blockHeaders E cs pkt s peerID sentryClient tr = (Some err, tr1) \<Longrightarrow>
     \<exists>new. tr1 = tr @ new \<and> filter isPenalty new = []"
  by (auto simp: blockHeaders_def Let_def dest: blockHeaders_POSSync_error
      split: sum.splits option.splits if_splits prod.splits)

lemma blockHeaders66_error:
  "blockHeaders66 E cs inmsg sentry tr = (Some err, tr1) \<Longrightarrow>
     \<exists>new. tr1 = tr @ new \<and> filter isPenalty new = []"
  by (auto simp: blockHeaders66_def dest: blockHeaders_error
      split: sum.splits option.splits if_splits prod.splits)

lemma newBlock66_segment_error:
  "newBlock66_segment E cs inreq sentryClient headerRaw request tr = (Return (Some err), tr1) \<Longrightarrow>
     \<exists>new. tr1 = tr @ new \<and> filter isPenalty new = []"
  by (auto simp: newBlock66_segment_def Let_def
      split: sum.splits option.splits if_splits prod.splits)

lemma newBlock66_error:
  "newBlock66 E cs inreq sentryClient tr = (Return (Some err), tr1) \<Longrightarrow>
     \<exists>new. tr1 = tr @ new \<and> filter isPenalty new = []"
  by (auto simp: newBlock66_def dest: newBlock66_segment_error
      split: sum.splits option.splits if_splits prod.splits)

lemma returned_error:
  "returned r = (Return (Some err), tr1) \<Longrightarrow> r = (Some err, tr1)"
  by (cases r) (simp add: returned_def)

lemma handleInboundMessage_error:
  assumes "handleInboundMessage E cs inreq sentry tr = (Return (Some err), tr1)"
  shows "\<exists>new. tr1 = tr @ new \<and> filter isPenalty new = []"
proof (cases "msgId inreq")
  case NEW_BLOCK_HASHES_66
  with assms have "newBlockHashes66 E cs inreq sentry tr = (Some err, tr1)"
    by (simp add: handleInboundMessage_def returned_error)
  then show ?thesis using newBlockHashes66_no_penalty [of E cs inreq sentry tr] by simp
next
  case BLOCK_HEADERS_66
  with assms have "blockHeaders66 E cs inreq sentry tr = (Some err, tr1)"
    by (simp add: handleInboundMessage_def returned_error)
  then show ?thesis by (rule blockHeaders66_error)
next
  case NEW_BLOCK_66
  with assms show ?thesis
    by (simp add: handleInboundMessage_def newBlock66_error)
next
  case BLOCK_BODIES_66
  with assms have "blockBodies66 E cs inreq sentry tr = (Some err, tr1)"
    by (simp add: handleInboundMessage_def returned_error)
  then show ?thesis using blockBodies66_no_penalty [of E cs inreq sentry tr] by simp
next
  case GET_BLOCK_HEADERS_66
  with assms have "getBlockHeaders66 E cs inreq sentry tr = (Some err, tr1)"
    by (simp add: handleInboundMessage_def returned_error)
  then show ?thesis using getBlockHeaders66_no_penalty [of E cs inreq sentry tr] by simp
next
  case GET_BLOCK_BODIES_66
  with assms have "getBlockBodies66 E cs inreq sentry tr = (Some err, tr1)"
    by (simp add: handleInboundMessage_def returned_error)
  then show ?thesis using getBlockBodies66_no_penalty [of E cs inreq sentry tr] by simp
next
  case RECEIPTS_66
  with assms show ?thesis
    by (simp add: handleInboundMessage_def returned_def receipts66_def)
next
  case GET_RECEIPTS_66
  with assms have "getReceipts66 E cs inreq sentry tr = (Some err, tr1)"
    by (simp add: handleInboundMessage_def returned_error)
  then show ?thesis using getReceipts66_no_penalty [of E cs inreq sentry tr] by simp
next
  case (OTHER_MESSAGE n)
  with assms show ?thesis by (simp add: handleInboundMessage_def)
qed

subsection \<open>The dispatcher\<close>

text \<open>C3: when the handler returns an error that \<open>rlp.IsInvalidRLPError\<close> accepts,
  \<open>HandleInboundMessage\<close> sends one \<open>Kick\<close> for the peer of the message to the sentry that
  delivered it, and this is the only penalty that the whole call has sent; whatever the
  \<open>PenalizePeer\<close> call answers, the error returned is the error of the handler. When the
  handler returns any other error, the whole call has sent no penalty.\<close>

theorem HandleInboundMessage_invalid_rlp_kick:
  assumes "handleInboundMessage E cs message sentry tr = (Return (Some err), tr1)"
  shows "fst (HandleInboundMessage E cs message sentry tr) = Some err \<and>
         filter isPenalty (since tr (snd (HandleInboundMessage E cs message sentry tr))) =
           (if IsInvalidRLPError (rlp E) err
            then [Ev_PenalizePeer sentry (PeerId message) Kick] else [])"
proof -
  obtain new where new: "tr1 = tr @ new" "filter isPenalty new = []"
    using handleInboundMessage_error [OF assms] by blast
  show ?thesis
    using assms new
    by (simp add: HandleInboundMessage_def Let_def since_def split: option.splits)
qed

theorem HandleInboundMessage_invalid_rlp_kick_witness:
  "handleInboundMessage mock_env mock_cs s3_msg 0 [] =
     (Return (Some (Wrapf ''decode BlockBodiesPacket66'' (Error ''rlp: expected List''))), []) \<and>
   IsInvalidRLPError (rlp mock_env) (Wrapf ''decode BlockBodiesPacket66'' (Error ''rlp: expected List'')) \<and>
   fst (HandleInboundMessage mock_env mock_cs s3_msg 0 []) =
     Some (Wrapf ''decode BlockBodiesPacket66'' (Error ''rlp: expected List'')) \<and>
   filter isPenalty (since [] (snd (HandleInboundMessage mock_env mock_cs s3_msg 0 []))) =
     [Ev_PenalizePeer 0 [0x02] Kick]"
proof -
  have h: "handleInboundMessage mock_env mock_cs s3_msg 0 [] =
     (Return (Some (Wrapf ''decode BlockBodiesPacket66'' (Error ''rlp: expected List''))), [])"
    by (simp add: handleInboundMessage_def s3_msg_def returned_def blockBodies66_def mock_defs)
  have c: "IsInvalidRLPError (rlp mock_env)
             (Wrapf ''decode BlockBodiesPacket66'' (Error ''rlp: expected List''))"
    by (simp add: mock_defs)
  show ?thesis
    using h c HandleInboundMessage_invalid_rlp_kick [OF h]
    by (simp add: s3_msg_def)
qed

text \<open>C10: \<open>HandleInboundMessage\<close> returns the error that the handler returned, also when it
  has sent the \<open>Kick\<close> for an invalid-RLP error after the handler ended.\<close>

theorem HandleInboundMessage_returns_handler_error:
  assumes "handleInboundMessage E cs message sentry tr = (Return (Some err), tr1)"
  shows "fst (HandleInboundMessage E cs message sentry tr) = Some err \<and>
         (IsInvalidRLPError (rlp E) err \<longrightarrow>
            Ev_PenalizePeer sentry (PeerId message) Kick
              \<in> set (since tr1 (snd (HandleInboundMessage E cs message sentry tr))))"
  using assms
  by (simp add: HandleInboundMessage_def Let_def since_def split: option.splits)

theorem HandleInboundMessage_returns_handler_error_witness:
  "handleInboundMessage mock_env mock_cs s3_msg 0 [] =
     (Return (Some (Wrapf ''decode BlockBodiesPacket66'' (Error ''rlp: expected List''))), []) \<and>
   fst (HandleInboundMessage mock_env mock_cs s3_msg 0 []) =
     Some (Wrapf ''decode BlockBodiesPacket66'' (Error ''rlp: expected List'')) \<and>
   Ev_PenalizePeer 0 [0x02] Kick \<in> set (since [] (snd (HandleInboundMessage mock_env mock_cs s3_msg 0 [])))"
proof -
  have h: "handleInboundMessage mock_env mock_cs s3_msg 0 [] =
     (Return (Some (Wrapf ''decode BlockBodiesPacket66'' (Error ''rlp: expected List''))), [])"
    by (simp add: handleInboundMessage_def s3_msg_def returned_def blockBodies66_def mock_defs)
  have c: "IsInvalidRLPError (rlp mock_env)
             (Wrapf ''decode BlockBodiesPacket66'' (Error ''rlp: expected List''))"
    by (simp add: mock_defs)
  show ?thesis
    using h c HandleInboundMessage_returns_handler_error [OF h]
    by (simp add: s3_msg_def)
qed

subsection \<open>The query responders\<close>

text \<open>C5: a \<open>GetBlockHeaders66\<close> query that decodes, and for which the store yields a list of
  headers, the empty list included, is answered: the handler sends to the peer of the
  query, on the sentry of the query, one \<open>BlockHeaders66\<close> message, the encoding of the
  request id of the query with the list of headers.\<close>

theorem getBlockHeaders66_always_replies:
  assumes "DecodeGetBlockHeadersPacket66 (rlp E) (Data inreq) = Inr (requestId, query)"
    and "ViewAnswerGetBlockHeadersQuery (store E) tr query = Inr headers"
    and "EncodeBlockHeadersPacket66 (rlp E) (requestId, headers) = Inr b"
  shows "snd (getBlockHeaders66 E cs inreq sentry tr) =
           tr @ [Ev_SendMessageById sentry (PeerId inreq) BLOCK_HEADERS_66 b]"
  using assms by (simp add: getBlockHeaders66_def Let_def split: option.splits)

theorem getBlockHeaders66_always_replies_witness:
  "ViewAnswerGetBlockHeadersQuery (store s2_env) []
     \<lparr>Origin = \<lparr>OriginHash = [], OriginNumber = 9999999999\<rparr>,
      Amount = 10, Skip = 0, Reverse = False\<rparr> = Inr [] \<and>
   EncodeBlockHeadersPacket66 (rlp s2_env) (7, []) = Inr [7] \<and>
   snd (getBlockHeaders66 s2_env mock_cs s2_msg 0 []) =
     [Ev_SendMessageById 0 [0x01] BLOCK_HEADERS_66 [7]]"
proof -
  have d: "DecodeGetBlockHeadersPacket66 (rlp s2_env) (Data s2_msg) =
             Inr (7, \<lparr>Origin = \<lparr>OriginHash = [], OriginNumber = 9999999999\<rparr>,
                      Amount = 10, Skip = 0, Reverse = False\<rparr>)"
    by (simp add: s2_env_def mock_defs)
  have v: "ViewAnswerGetBlockHeadersQuery (store s2_env) []
             \<lparr>Origin = \<lparr>OriginHash = [], OriginNumber = 9999999999\<rparr>,
              Amount = 10, Skip = 0, Reverse = False\<rparr> = Inr []"
    by (simp add: s2_env_def mock_defs)
  have e: "EncodeBlockHeadersPacket66 (rlp s2_env) (7, []) = Inr [7]"
    by (simp add: s2_env_def mock_defs)
  show ?thesis
    using v e getBlockHeaders66_always_replies [OF d v e, of mock_cs 0]
    by (simp add: s2_msg_def)
qed

text \<open>C6: the failing input. The sentry answers the send of the \<open>BlockHeaders66\<close> response
  with "peer not found": \<open>getBlockHeaders66\<close> returns the error, wrapped, where
  \<open>getBlockBodies66\<close> in the same environment returns nil.\<close>

theorem getBlockHeaders66_returns_peer_not_found:
  "isPeerNotFoundErr (sentryApi peerGone_env) (Error ''peer not found'') \<and>
   getBlockHeaders66 peerGone_env mock_cs s2_msg 0 [] =
     (Some (Wrapf ''send header response 66'' (Error ''peer not found'')),
      [Ev_SendMessageById 0 [0x01] BLOCK_HEADERS_66 [7]]) \<and>
   getBlockBodies66 peerGone_env mock_cs s2_msg 0 [] =
     (None, [Ev_SendMessageById 0 [0x01] BLOCK_BODIES_66 [7]])"
  by (simp add: getBlockHeaders66_def getBlockBodies66_def peerGone_env_def s2_msg_def mock_defs)

subsection \<open>The header ingest: \<open>BlockHeaders66\<close>\<close>

text \<open>The loop of \<open>blockHeaders\<close> pairs the typed headers with the raw slices of the
  stream, in order, and keeps the greatest block number.\<close>

lemma blockHeaders_loop_result:
  "blockHeaders_loop E pkt s highestBlock csHeaders = Inr (hi, csH) \<Longrightarrow>
     \<exists>raws. StreamRaws (rlpStream E) s (length pkt) = Some raws \<and>
            csH = csHeaders @ map2 (segmentHeader (rlpStream E)) pkt raws \<and>
            hi = Max (insert highestBlock (set (map (\<lambda>h. Uint64 (HeaderNumber h)) pkt)))"
proof (induction pkt arbitrary: s highestBlock csHeaders)
  case Nil
  then show ?case by simp
next
  case (Cons header pkt)
  from Cons.prems obtain headerRaw s' where raw: "StreamRaw (rlpStream E) s = Inr (headerRaw, s')"
    by (auto split: sum.splits)
  let ?n = "Uint64 (HeaderNumber header)"
  let ?hi1 = "if ?n > highestBlock then ?n else highestBlock"
  let ?cs1 = "csHeaders @ [\<lparr>HeaderRaw = headerRaw, Header = header,
                   Hash = RawRlpHash (rlpStream E) headerRaw, Number = ?n\<rparr>]"
  from Cons.prems raw have rec: "blockHeaders_loop E pkt s' ?hi1 ?cs1 = Inr (hi, csH)"
    by (simp add: Let_def)
  from Cons.IH [OF rec] obtain raws where
    r: "StreamRaws (rlpStream E) s' (length pkt) = Some raws"
       "csH = ?cs1 @ map2 (segmentHeader (rlpStream E)) pkt raws"
       "hi = Max (insert ?hi1 (set (map (\<lambda>h. Uint64 (HeaderNumber h)) pkt)))"
    by blast
  have m: "?hi1 = max highestBlock ?n" by (auto simp: max_def)
  have "hi = Max (insert highestBlock (set (map (\<lambda>h. Uint64 (HeaderNumber h)) (header # pkt))))"
  proof (cases "pkt = []")
    case True
    then show ?thesis using r(3) m by simp
  next
    case False
    then show ?thesis using r(3) m
      by (simp add: max.assoc)
  qed
  moreover have "csH = csHeaders @ map2 (segmentHeader (rlpStream E)) (header # pkt) (headerRaw # raws)"
    using r(2) by (simp add: segmentHeader_def)
  moreover have "StreamRaws (rlpStream E) s (length (header # pkt)) = Some (headerRaw # raws)"
    using raw r(1) by simp
  ultimately show ?case by blast
qed

text \<open>What \<open>blockHeaders\<close> and \<open>blockHeaders66\<close> append to the history: nothing, or the
  call of the downloader alone when \<open>ProcessHeadersPOS\<close> fails, or the call of the
  downloader, what the branch does after it, and the call of \<open>PeerMinBlock\<close>.\<close>

lemma callPeerMinBlock_trace:
  "\<exists>log. quiet log \<and> callPeerMinBlock E sc p n tr = tr @ [Ev_PeerMinBlock sc p n] @ log"
  by (simp add: callPeerMinBlock_def Let_def quiet_def split: option.splits)

lemma blockHeaders_requestMore_trace:
  "\<exists>new. quiet new \<and> blockHeaders_requestMore E tr = tr @ new"
  by (simp add: blockHeaders_requestMore_def Let_def quiet_def split: option.splits prod.splits)

lemma blockHeaders_ProcessHeaders_trace:
  "\<exists>new. quiet new \<and>
     blockHeaders_ProcessHeaders E csH p tr = tr @ [Ev_ProcessHeaders (HeadersSort csH) False p] @ new"
proof (cases "ProcessHeaders (Hd E) tr (HeadersSort csH) False p")
  case True
  obtain new where "quiet new"
    "blockHeaders_requestMore E (tr @ [Ev_ProcessHeaders (HeadersSort csH) False p]) =
       (tr @ [Ev_ProcessHeaders (HeadersSort csH) False p]) @ new"
    using blockHeaders_requestMore_trace by blast
  then show ?thesis using True by (simp add: blockHeaders_ProcessHeaders_def Let_def)
next
  case False
  then show ?thesis by (simp add: blockHeaders_ProcessHeaders_def Let_def quiet_def)
qed

lemma blockHeaders_POSSync_trace:
  assumes "blockHeaders_POSSync E csH p tr = (r, tr1)"
  shows "(r \<noteq> None \<and> (tr1 = tr \<or> tr1 = tr @ [Ev_ProcessHeadersPOS (HeadersReverseSort csH) p])) \<or>
         (r = None \<and> (\<exists>new. quiet new \<and>
            tr1 = tr @ [Ev_ProcessHeadersPOS (HeadersReverseSort csH) p] @ new))"
proof (cases "BeginTemporalRo (store E) tr")
  case (Some err)
  with assms have "r = Some err \<and> tr1 = tr"
    by (simp add: blockHeaders_POSSync_def Let_def)
  then show ?thesis by simp
next
  case None
  show ?thesis
  proof (cases "ProcessHeadersPOS (Hd E) tr (HeadersReverseSort csH) p")
    case (Inl err)
    with None assms
    have "r = Some err \<and> tr1 = tr @ [Ev_ProcessHeadersPOS (HeadersReverseSort csH) p]"
      by (simp add: blockHeaders_POSSync_def Let_def)
    then show ?thesis by simp
  next
    case (Inr penalties)
    with None assms
    have "r = None \<and> tr1 = tr @ [Ev_ProcessHeadersPOS (HeadersReverseSort csH) p]
                               @ (if length penalties > 0 then [Ev_Penalize penalties] else [])"
      by (auto simp: blockHeaders_POSSync_def Let_def)
    moreover have "quiet (if length penalties > 0 then [Ev_Penalize penalties] else [])"
      by (simp add: quiet_def)
    ultimately show ?thesis by blast
  qed
qed

lemma blockHeaders_trace:
  assumes "blockHeaders E cs pkt s peerID sc tr = (r, tr')"
  shows "(tr' = tr \<and> (r \<noteq> None \<or> disableBlockDownload cs \<or> pkt = [])) \<or>
         (\<exists>s1 hi csH. StreamList (rlpStream E) s = Inr s1 \<and>
            blockHeaders_loop E pkt s1 0 [] = Inr (hi, csH) \<and>
            ((POSSync (Hd E) tr \<and> r \<noteq> None \<and>
              tr' = tr @ [Ev_ProcessHeadersPOS (HeadersReverseSort csH) peerID]) \<or>
             (\<exists>rest log. quiet rest \<and> quiet log \<and> r = None \<and>
                tr' = tr @ [if POSSync (Hd E) tr
                            then Ev_ProcessHeadersPOS (HeadersReverseSort csH) peerID
                            else Ev_ProcessHeaders (HeadersSort csH) False peerID]
                         @ rest @ [Ev_PeerMinBlock sc peerID hi] @ log)))"
proof (cases "disableBlockDownload cs \<or> pkt = []")
  case True
  with assms have "tr' = tr" by (auto simp: blockHeaders_def split: if_splits)
  with True show ?thesis by simp
next
  case enabled: False
  show ?thesis
  proof (cases "StreamList (rlpStream E) s")
    case (Inl err)
    with enabled assms have "tr' = tr \<and> r \<noteq> None" by (auto simp: blockHeaders_def)
    then show ?thesis by simp
  next
    case s1: (Inr s1)
    show ?thesis
    proof (cases "blockHeaders_loop E pkt s1 0 []")
      case (Inl err)
      with enabled s1 assms have "tr' = tr \<and> r \<noteq> None" by (auto simp: blockHeaders_def)
      then show ?thesis by simp
    next
      case (Inr res)
      then obtain hi csH where loop: "blockHeaders_loop E pkt s1 0 [] = Inr (hi, csH)"
        by (cases res) simp
      show ?thesis
      proof (cases "POSSync (Hd E) tr")
        case pos: True
        obtain r1 tr1 where b: "blockHeaders_POSSync E csH peerID tr = (r1, tr1)"
          by (cases "blockHeaders_POSSync E csH peerID tr") simp
        show ?thesis
        proof (cases r1)
          case (Some err)
          with enabled s1 loop pos b assms have res: "r = Some err" "tr' = tr1"
            by (auto simp: blockHeaders_def)
          from blockHeaders_POSSync_trace [OF b] Some
          have "tr1 = tr \<or> tr1 = tr @ [Ev_ProcessHeadersPOS (HeadersReverseSort csH) peerID]"
            by simp
          then show ?thesis using res s1 loop pos by auto
        next
          case None
          with enabled s1 loop pos b assms have res: "r = None"
            "tr' = callPeerMinBlock E sc peerID hi tr1"
            by (auto simp: blockHeaders_def)
          from blockHeaders_POSSync_trace [OF b] None obtain new where
            new: "quiet new" "tr1 = tr @ [Ev_ProcessHeadersPOS (HeadersReverseSort csH) peerID] @ new"
            by auto
          obtain log where log: "quiet log"
            "callPeerMinBlock E sc peerID hi tr1 = tr1 @ [Ev_PeerMinBlock sc peerID hi] @ log"
            using callPeerMinBlock_trace by blast
          have "tr' = tr @ [Ev_ProcessHeadersPOS (HeadersReverseSort csH) peerID]
                         @ new @ [Ev_PeerMinBlock sc peerID hi] @ log"
            using res(2) new(2) log(2) by simp
          then show ?thesis using res(1) new(1) log(1) s1 loop pos by auto
        qed
      next
        case pow: False
        let ?tr1 = "blockHeaders_ProcessHeaders E csH peerID tr"
        from enabled s1 loop pow assms have res: "r = None"
          "tr' = callPeerMinBlock E sc peerID hi ?tr1"
          by (auto simp: blockHeaders_def)
        obtain new where new: "quiet new"
          "?tr1 = tr @ [Ev_ProcessHeaders (HeadersSort csH) False peerID] @ new"
          using blockHeaders_ProcessHeaders_trace by blast
        obtain log where log: "quiet log"
          "callPeerMinBlock E sc peerID hi ?tr1 = ?tr1 @ [Ev_PeerMinBlock sc peerID hi] @ log"
          using callPeerMinBlock_trace by blast
        have "tr' = tr @ [Ev_ProcessHeaders (HeadersSort csH) False peerID]
                       @ new @ [Ev_PeerMinBlock sc peerID hi] @ log"
          using res(2) new(2) log(2) by simp
        then show ?thesis using res(1) new(1) log(1) s1 loop pow by auto
      qed
    qed
  qed
qed


lemma blockHeaders66_trace:
  assumes "blockHeaders66 E cs inmsg sentry tr = (r, tr')"
  shows "(tr' = tr \<and>
          (r \<noteq> None \<or> disableBlockDownload cs \<or>
           (\<exists>rid. DecodeBlockHeadersPacket66 (rlp E) (Data inmsg) = Inr (rid, [])))) \<or>
         (\<exists>rid pkt raws csH ev.
            DecodeBlockHeadersPacket66 (rlp E) (Data inmsg) = Inr (rid, pkt) \<and>
            blockHeaders66_raws E (Data inmsg) (length pkt) = Some raws \<and>
            csH = map2 (segmentHeader (rlpStream E)) pkt raws \<and>
            ev = (if POSSync (Hd E) tr
                  then Ev_ProcessHeadersPOS (HeadersReverseSort csH) (PeerId inmsg)
                  else Ev_ProcessHeaders (HeadersSort csH) False (PeerId inmsg)) \<and>
            ((POSSync (Hd E) tr \<and> r \<noteq> None \<and> tr' = tr @ [ev]) \<or>
             (\<exists>rest log. quiet rest \<and> quiet log \<and> r = None \<and>
                tr' = tr @ [ev] @ rest
                         @ [Ev_PeerMinBlock sentry (PeerId inmsg)
                              (Max (insert 0 (set (map (\<lambda>h. Uint64 (HeaderNumber h)) pkt))))]
                         @ log)))"
proof (cases "DecodeBlockHeadersPacket66 (rlp E) (Data inmsg)")
  case (Inl err)
  with assms have "tr' = tr \<and> r \<noteq> None" by (auto simp: blockHeaders66_def)
  then show ?thesis by simp
next
  case (Inr p)
  then obtain rid pkt where dec: "DecodeBlockHeadersPacket66 (rlp E) (Data inmsg) = Inr (rid, pkt)"
    by (cases p) simp
  show ?thesis
  proof (cases "StreamList (rlpStream E) (NewStream (Data inmsg))")
    case (Inl err)
    with dec assms have "tr' = tr \<and> r \<noteq> None" by (auto simp: blockHeaders66_def)
    then show ?thesis by simp
  next
    case s1: (Inr s1)
    show ?thesis
    proof (cases "StreamUint (rlpStream E) s1")
      case (Inl err)
      with dec s1 assms have "tr' = tr \<and> r \<noteq> None" by (auto simp: blockHeaders66_def)
      then show ?thesis by simp
    next
      case (Inr u)
      then obtain x s2 where s2: "StreamUint (rlpStream E) s1 = Inr (x, s2)"
        by (cases u) simp
      from dec s1 s2 assms have b: "blockHeaders E cs pkt s2 (PeerId inmsg) sentry tr = (r, tr')"
        by (simp add: blockHeaders66_def)
      from blockHeaders_trace [OF b] show ?thesis
      proof (elim disjE exE conjE, goal_cases)
        case 1
        then show ?case by simp
      next
        case 2
        then show ?case by simp
      next
        case 3
        then show ?case using dec by simp
      next
        case (4 s3 hi csH)
        from blockHeaders_loop_result [OF 4(2)] obtain raws where
          raws: "StreamRaws (rlpStream E) s3 (length pkt) = Some raws"
            "csH = map2 (segmentHeader (rlpStream E)) pkt raws"
          by auto
        have "blockHeaders66_raws E (Data inmsg) (length pkt) = Some raws"
          using s1 s2 4(1) raws(1) by (simp add: blockHeaders66_raws_def)
        then show ?case using dec raws(2) 4 by auto
      next
        case (5 s3 hi csH rest log)
        from blockHeaders_loop_result [OF 5(2)] obtain raws where
          raws: "StreamRaws (rlpStream E) s3 (length pkt) = Some raws"
            "csH = map2 (segmentHeader (rlpStream E)) pkt raws"
            "hi = Max (insert 0 (set (map (\<lambda>h. Uint64 (HeaderNumber h)) pkt)))"
          by auto
        have "blockHeaders66_raws E (Data inmsg) (length pkt) = Some raws"
          using s1 s2 5(1) raws(1) by (simp add: blockHeaders66_raws_def)
        then show ?case using dec raws(2,3) 5 by blast
      qed
    qed
  qed
qed

lemma blockHeaders66_handed_over:
  assumes "e \<in> set (since tr (snd (blockHeaders66 E cs inmsg sentry tr)))"
    and "isProcessHeaders e"
  shows "\<exists>rid pkt raws.
           DecodeBlockHeadersPacket66 (rlp E) (Data inmsg) = Inr (rid, pkt) \<and>
           blockHeaders66_raws E (Data inmsg) (length pkt) = Some raws \<and>
           e = (if POSSync (Hd E) tr
                then Ev_ProcessHeadersPOS
                       (HeadersReverseSort (map2 (segmentHeader (rlpStream E)) pkt raws)) (PeerId inmsg)
                else Ev_ProcessHeaders
                       (HeadersSort (map2 (segmentHeader (rlpStream E)) pkt raws)) False (PeerId inmsg))"
proof -
  obtain r tr' where b: "blockHeaders66 E cs inmsg sentry tr = (r, tr')"
    by (cases "blockHeaders66 E cs inmsg sentry tr") simp
  from assms(1) b have e: "e \<in> set (since tr tr')" by simp
  from blockHeaders66_trace [OF b] show ?thesis
  proof (elim disjE exE conjE, goal_cases)
    case 1
    with e show ?case by (simp add: since_def)
  next
    case 2
    with e show ?case by (simp add: since_def)
  next
    case 3
    with e show ?case by (simp add: since_def)
  next
    case (4 rid pkt raws csH ev)
    with e have "e = ev" by (simp add: since_def)
    with 4 show ?case by simp
  next
    case (5 rid pkt raws csH ev rest log)
    with e assms(2) have "e = ev" by (auto simp: since_def quiet_def)
    with 5 show ?case by simp
  qed
qed

lemma segmentHeader_zip:
  "h \<in> set (map2 (segmentHeader R) pkt raws) \<Longrightarrow> Hash h = RawRlpHash R (HeaderRaw h)"
  by (auto simp: segmentHeader_def dest!: set_zip_leftD)

lemma filter_quiet: "quiet evs \<Longrightarrow> filter isPeerMinBlock evs = []"
  by (auto simp: quiet_def filter_empty_conv)

lemma Max_uint:
  fixes S :: "uint64 set"
  assumes "finite S" "S \<noteq> {}"
  shows "uint (Max S) = Max (uint ` S)"
  by (rule mono_Max_commute [OF _ assms]) (simp add: mono_def word_le_def)

lemma uint_Uint64: "0 \<le> x \<Longrightarrow> x < 2 ^ 64 \<Longrightarrow> uint (Uint64 x) = x"
  by (simp add: Uint64_def uint_word_of_int)

text \<open>The runs of the scenario S4 and of the packet with two headers of number 5.\<close>

lemma s4_run:
  "blockHeaders66 s4_env mock_cs s4_msg 0 [] =
     (None, [Ev_ProcessHeaders [s4_segment 8, s4_segment 10, s4_segment 11] False [0x03],
             Ev_PeerMinBlock 0 [0x03] 11])"
  by (simp add: blockHeaders66_def blockHeaders_def blockHeaders_ProcessHeaders_def
      callPeerMinBlock_def HeadersSort_def s4_env_def s4_msg_def s4_segment_def Uint64_def
      mock_defs Let_def)

lemma s4_pos_run:
  "blockHeaders66 s4_pos_env mock_cs s4_msg 0 [] =
     (None, [Ev_ProcessHeadersPOS [s4_segment 11, s4_segment 10, s4_segment 8] [0x03],
             Ev_PeerMinBlock 0 [0x03] 11])"
  by (simp add: blockHeaders66_def blockHeaders_def blockHeaders_POSSync_def
      callPeerMinBlock_def HeadersReverseSort_def s4_pos_env_def s4_env_def s4_msg_def
      s4_segment_def Uint64_def mock_defs Let_def)

lemma dup_run:
  "blockHeaders66 dup_env mock_cs dup_msg 0 [] =
     (None, [Ev_ProcessHeaders dup_segments False [0x03], Ev_PeerMinBlock 0 [0x03] 5])"
  by (simp add: blockHeaders66_def blockHeaders_def blockHeaders_ProcessHeaders_def
      callPeerMinBlock_def HeadersSort_def dup_env_def dup_msg_def dup_segments_def Uint64_def
      mock_defs Let_def)

lemma dup_pos_run:
  "blockHeaders66 dup_pos_env mock_cs dup_msg 0 [] =
     (None, [Ev_ProcessHeadersPOS (rev dup_segments) [0x03], Ev_PeerMinBlock 0 [0x03] 5])"
  by (simp add: blockHeaders66_def blockHeaders_def blockHeaders_POSSync_def
      callPeerMinBlock_def HeadersReverseSort_def dup_pos_env_def dup_env_def dup_msg_def
      dup_segments_def Uint64_def mock_defs Let_def)

lemma wrap_run:
  "blockHeaders66 wrap_env mock_cs wrap_msg 0 [] =
     (None, [Ev_ProcessHeaders wrap_segments False [0x03], Ev_PeerMinBlock 0 [0x03] 7])"
  by (simp add: blockHeaders66_def blockHeaders_def blockHeaders_ProcessHeaders_def
      callPeerMinBlock_def HeadersSort_def wrap_env_def wrap_msg_def wrap_segments_def
      wrap_packet_def Uint64_def mock_defs Let_def)

lemma StreamRaws_length: "StreamRaws R s n = Some raws \<Longrightarrow> length raws = n"
  by (induction n arbitrary: s raws) (auto split: sum.splits option.splits prod.splits)

lemma blockHeaders66_raws_length:
  "blockHeaders66_raws E data n = Some raws \<Longrightarrow> length raws = n"
  by (auto simp: blockHeaders66_raws_def dest: StreamRaws_length
      split: sum.splits prod.splits)

lemma map_Header_segmentHeader:
  "length raws = length pkt \<Longrightarrow> map Header (map2 (segmentHeader R) pkt raws) = pkt"
  by (induction pkt raws rule: list_induct2') (auto simp: segmentHeader_def)

lemma Number_segmentHeader:
  "h \<in> set (map2 (segmentHeader R) pkt raws) \<Longrightarrow> Number h = Uint64 (HeaderNumber (Header h))"
  by (auto simp: segmentHeader_def dest!: set_zip_leftD)

lemma sorted_map_uint:
  fixes ys :: "uint64 list"
  shows "sorted (map uint ys) = sorted ys"
  by (simp add: sorted_wrt_map flip: word_le_def)

lemma strict_sorted_map_uint:
  fixes ys :: "uint64 list"
  shows "sorted_wrt (\<lambda>a b. a < b) (map uint ys) = sorted_wrt (\<lambda>a b. a < b) ys"
  by (simp add: sorted_wrt_map flip: word_less_def)

lemma distinct_map_uint:
  fixes ys :: "uint64 list"
  shows "distinct (map uint ys) = distinct ys"
  by (auto simp: distinct_map inj_on_def simp flip: word_uint_eq_iff)

text \<open>C1: every list of segment headers that \<open>blockHeaders66\<close> hands to the downloader
  (\<open>ProcessHeaders\<close> or \<open>ProcessHeadersPOS\<close>) holds, up to the order, the typed headers of
  the packet paired one by one with the raw slices that the second pass over the message
  bytes returns, and the \<open>Hash\<close> of each segment header is \<open>RawRlpHash\<close> of its
  \<open>HeaderRaw\<close>: the hash is computed from the raw slice, the typed header is not
  encoded again.\<close>

theorem blockHeaders66_hash_of_raw:
  assumes "e \<in> set (since tr (snd (blockHeaders66 E cs inmsg sentry tr)))"
    and "e = Ev_ProcessHeaders segs newBlock p \<or> e = Ev_ProcessHeadersPOS segs p"
  shows "(\<forall>h \<in> set segs. Hash h = RawRlpHash (rlpStream E) (HeaderRaw h)) \<and>
         (\<exists>rid pkt raws.
            DecodeBlockHeadersPacket66 (rlp E) (Data inmsg) = Inr (rid, pkt) \<and>
            blockHeaders66_raws E (Data inmsg) (length pkt) = Some raws \<and>
            mset segs = mset (map2 (segmentHeader (rlpStream E)) pkt raws))"
proof -
  from assms(2) have "isProcessHeaders e" by auto
  from blockHeaders66_handed_over [OF assms(1) this] obtain rid pkt raws where
    d: "DecodeBlockHeadersPacket66 (rlp E) (Data inmsg) = Inr (rid, pkt)"
       "blockHeaders66_raws E (Data inmsg) (length pkt) = Some raws"
    and e: "e = (if POSSync (Hd E) tr
                then Ev_ProcessHeadersPOS
                       (HeadersReverseSort (map2 (segmentHeader (rlpStream E)) pkt raws)) (PeerId inmsg)
                else Ev_ProcessHeaders
                       (HeadersSort (map2 (segmentHeader (rlpStream E)) pkt raws)) False (PeerId inmsg))"
    by blast
  let ?X = "map2 (segmentHeader (rlpStream E)) pkt raws"
  from e assms(2) have "segs = HeadersSort ?X \<or> segs = HeadersReverseSort ?X"
    by (auto split: if_splits)
  then have m: "mset segs = mset ?X"
    by (auto simp: HeadersSort_def HeadersReverseSort_def)
  then have "set segs = set ?X" by (rule mset_eq_setD)
  then have "\<forall>h \<in> set segs. Hash h = RawRlpHash (rlpStream E) (HeaderRaw h)"
    using segmentHeader_zip by blast
  with d m show ?thesis by blast
qed

theorem blockHeaders66_hash_of_raw_witness:
  "Ev_ProcessHeaders [s4_segment 8, s4_segment 10, s4_segment 11] False [0x03]
     \<in> set (since [] (snd (blockHeaders66 s4_env mock_cs s4_msg 0 []))) \<and>
   Hash (s4_segment 8) = RawRlpHash (rlpStream s4_env) (HeaderRaw (s4_segment 8)) \<and>
   Hash (s4_segment 10) = RawRlpHash (rlpStream s4_env) (HeaderRaw (s4_segment 10)) \<and>
   Hash (s4_segment 11) = RawRlpHash (rlpStream s4_env) (HeaderRaw (s4_segment 11))"
proof -
  have h: "Ev_ProcessHeaders [s4_segment 8, s4_segment 10, s4_segment 11] False [0x03]
     \<in> set (since [] (snd (blockHeaders66 s4_env mock_cs s4_msg 0 [])))"
    by (simp add: s4_run since_def)
  show ?thesis
    using h blockHeaders66_hash_of_raw [OF h, of "[s4_segment 8, s4_segment 10, s4_segment 11]" False "[0x03]"]
    by simp
qed

text \<open>C2, as amended: the list handed to \<open>ProcessHeaders\<close> (before the merge) is sorted by
  ascending value of the field \<open>Number\<close>, the list handed to \<open>ProcessHeadersPOS\<close> (after the
  merge) by descending value of it, where \<open>Number\<close> is the block number of the header as
  \<open>Number.Uint64()\<close> reads it; the order is strict when these values are pairwise
  distinct. The headers of the list are the headers of the packet. When every block number
  of the packet fits 64 bits, the list is sorted by ascending, or descending, block
  number, strictly when the block numbers of the packet are pairwise distinct. A packet
  may hold two headers of the same number, and then the order is not strict; it may hold
  a block number beyond 64 bits, and then the list need not be in the order of the block
  numbers: the counterexample follows the witness.\<close>

theorem blockHeaders66_sorted:
  assumes "e \<in> set (since tr (snd (blockHeaders66 E cs inmsg sentry tr)))"
  shows "(e = Ev_ProcessHeaders segs newBlock p \<longrightarrow>
            \<not> POSSync (Hd E) tr \<and> sorted (map Number segs) \<and>
            (distinct (map Number segs) \<longrightarrow> sorted_wrt (\<lambda>a b. a < b) (map Number segs))) \<and>
         (e = Ev_ProcessHeadersPOS segs p \<longrightarrow>
            POSSync (Hd E) tr \<and> sorted (rev (map Number segs)) \<and>
            (distinct (map Number segs) \<longrightarrow> sorted_wrt (\<lambda>a b. a > b) (map Number segs))) \<and>
         (e = Ev_ProcessHeaders segs newBlock p \<or> e = Ev_ProcessHeadersPOS segs p \<longrightarrow>
            (\<exists>rid pkt.
               DecodeBlockHeadersPacket66 (rlp E) (Data inmsg) = Inr (rid, pkt) \<and>
               mset (map Header segs) = mset pkt \<and>
               map Number segs = map (\<lambda>h. Uint64 (HeaderNumber (Header h))) segs \<and>
               ((\<forall>h \<in> set pkt. 0 \<le> HeaderNumber h \<and> HeaderNumber h < 2 ^ 64) \<longrightarrow>
                  (e = Ev_ProcessHeaders segs newBlock p \<longrightarrow>
                     sorted (map (\<lambda>h. HeaderNumber (Header h)) segs) \<and>
                     (distinct (map HeaderNumber pkt) \<longrightarrow>
                        sorted_wrt (\<lambda>a b. a < b) (map (\<lambda>h. HeaderNumber (Header h)) segs))) \<and>
                  (e = Ev_ProcessHeadersPOS segs p \<longrightarrow>
                     sorted (rev (map (\<lambda>h. HeaderNumber (Header h)) segs)) \<and>
                     (distinct (map HeaderNumber pkt) \<longrightarrow>
                        sorted_wrt (\<lambda>a b. a > b) (map (\<lambda>h. HeaderNumber (Header h)) segs))))))"
proof (intro conjI)
  show pow: "e = Ev_ProcessHeaders segs newBlock p \<longrightarrow>
            \<not> POSSync (Hd E) tr \<and> sorted (map Number segs) \<and>
            (distinct (map Number segs) \<longrightarrow> sorted_wrt (\<lambda>a b. a < b) (map Number segs))"
  proof (intro impI)
    assume e: "e = Ev_ProcessHeaders segs newBlock p"
    then have "isProcessHeaders e" by simp
    from blockHeaders66_handed_over [OF assms this] e obtain X where
      x: "\<not> POSSync (Hd E) tr" "segs = HeadersSort X"
      by (auto split: if_splits)
    have s: "sorted (map Number segs)" using x(2) by (simp add: HeadersSort_def)
    then show "\<not> POSSync (Hd E) tr \<and> sorted (map Number segs) \<and>
            (distinct (map Number segs) \<longrightarrow> sorted_wrt (\<lambda>a b. a < b) (map Number segs))"
      using x(1) by (simp add: strict_sorted_iff)
  qed
  show pos: "e = Ev_ProcessHeadersPOS segs p \<longrightarrow>
            POSSync (Hd E) tr \<and> sorted (rev (map Number segs)) \<and>
            (distinct (map Number segs) \<longrightarrow> sorted_wrt (\<lambda>a b. a > b) (map Number segs))"
  proof (intro impI)
    assume e: "e = Ev_ProcessHeadersPOS segs p"
    then have "isProcessHeaders e" by simp
    from blockHeaders66_handed_over [OF assms this] e obtain X where
      x: "POSSync (Hd E) tr" "segs = HeadersReverseSort X"
      by (auto split: if_splits)
    have s: "sorted (rev (map Number segs))"
      using x(2) by (simp add: HeadersReverseSort_def rev_map)
    have "distinct (map Number segs) \<longrightarrow> sorted_wrt (\<lambda>a b. a > b) (map Number segs)"
    proof
      assume "distinct (map Number segs)"
      with s have "sorted_wrt (\<lambda>a b. a < b) (rev (map Number segs))"
        by (simp add: strict_sorted_iff)
      then show "sorted_wrt (\<lambda>a b. a > b) (map Number segs)"
        by (simp add: sorted_wrt_rev)
    qed
    with s x(1) show "POSSync (Hd E) tr \<and> sorted (rev (map Number segs)) \<and>
            (distinct (map Number segs) \<longrightarrow> sorted_wrt (\<lambda>a b. a > b) (map Number segs))"
      by simp
  qed
  show "e = Ev_ProcessHeaders segs newBlock p \<or> e = Ev_ProcessHeadersPOS segs p \<longrightarrow>
            (\<exists>rid pkt.
               DecodeBlockHeadersPacket66 (rlp E) (Data inmsg) = Inr (rid, pkt) \<and>
               mset (map Header segs) = mset pkt \<and>
               map Number segs = map (\<lambda>h. Uint64 (HeaderNumber (Header h))) segs \<and>
               ((\<forall>h \<in> set pkt. 0 \<le> HeaderNumber h \<and> HeaderNumber h < 2 ^ 64) \<longrightarrow>
                  (e = Ev_ProcessHeaders segs newBlock p \<longrightarrow>
                     sorted (map (\<lambda>h. HeaderNumber (Header h)) segs) \<and>
                     (distinct (map HeaderNumber pkt) \<longrightarrow>
                        sorted_wrt (\<lambda>a b. a < b) (map (\<lambda>h. HeaderNumber (Header h)) segs))) \<and>
                  (e = Ev_ProcessHeadersPOS segs p \<longrightarrow>
                     sorted (rev (map (\<lambda>h. HeaderNumber (Header h)) segs)) \<and>
                     (distinct (map HeaderNumber pkt) \<longrightarrow>
                        sorted_wrt (\<lambda>a b. a > b) (map (\<lambda>h. HeaderNumber (Header h)) segs)))))"
  proof (intro impI)
    assume ev: "e = Ev_ProcessHeaders segs newBlock p \<or> e = Ev_ProcessHeadersPOS segs p"
    then have "isProcessHeaders e" by auto
    from blockHeaders66_handed_over [OF assms this] obtain rid pkt raws where
      d: "DecodeBlockHeadersPacket66 (rlp E) (Data inmsg) = Inr (rid, pkt)"
         "blockHeaders66_raws E (Data inmsg) (length pkt) = Some raws"
      and e: "e = (if POSSync (Hd E) tr
                then Ev_ProcessHeadersPOS
                       (HeadersReverseSort (map2 (segmentHeader (rlpStream E)) pkt raws)) (PeerId inmsg)
                else Ev_ProcessHeaders
                       (HeadersSort (map2 (segmentHeader (rlpStream E)) pkt raws)) False (PeerId inmsg))"
      by blast
    let ?X = "map2 (segmentHeader (rlpStream E)) pkt raws"
    let ?bn = "\<lambda>h. HeaderNumber (Header h)"
    have len: "length raws = length pkt" using d(2) by (rule blockHeaders66_raws_length)
    from e ev have "segs = HeadersSort ?X \<or> segs = HeadersReverseSort ?X"
      by (auto split: if_splits)
    then have m: "mset segs = mset ?X"
      by (auto simp: HeadersSort_def HeadersReverseSort_def)
    then have st: "set segs = set ?X" by (rule mset_eq_setD)
    have hx: "map Header ?X = pkt" by (rule map_Header_segmentHeader [OF len])
    have "mset (map Header segs) = mset (map Header ?X)" by (simp only: mset_map m)
    then have mh: "mset (map Header segs) = mset pkt" by (simp only: hx)
    have num: "map Number segs = map (\<lambda>h. Uint64 (HeaderNumber (Header h))) segs"
      using st Number_segmentHeader by (auto simp del: map_map)
    have rng: "(\<forall>h \<in> set pkt. 0 \<le> HeaderNumber h \<and> HeaderNumber h < 2 ^ 64) \<longrightarrow>
                  (e = Ev_ProcessHeaders segs newBlock p \<longrightarrow>
                     sorted (map ?bn segs) \<and>
                     (distinct (map HeaderNumber pkt) \<longrightarrow>
                        sorted_wrt (\<lambda>a b. a < b) (map ?bn segs))) \<and>
                  (e = Ev_ProcessHeadersPOS segs p \<longrightarrow>
                     sorted (rev (map ?bn segs)) \<and>
                     (distinct (map HeaderNumber pkt) \<longrightarrow>
                        sorted_wrt (\<lambda>a b. a > b) (map ?bn segs)))"
    proof (intro impI)
      assume r: "\<forall>h \<in> set pkt. 0 \<le> HeaderNumber h \<and> HeaderNumber h < 2 ^ 64"
      have hs: "set (map Header segs) = set pkt" using mh by (rule mset_eq_setD)
      have "\<forall>h \<in> set segs. uint (Number h) = ?bn h"
      proof
        fix h assume h: "h \<in> set segs"
        then have "Header h \<in> set pkt" using hs by auto
        moreover have "Number h = Uint64 (HeaderNumber (Header h))"
          using h st Number_segmentHeader by blast
        ultimately show "uint (Number h) = ?bn h" using r by (simp add: uint_Uint64)
      qed
      then have bn: "map ?bn segs = map uint (map Number segs)" by simp
      have "image_mset HeaderNumber (mset (map Header segs)) = image_mset HeaderNumber (mset pkt)"
        by (simp only: mh)
      then have "mset (map ?bn segs) = mset (map HeaderNumber pkt)"
        by (simp add: multiset.map_comp comp_def)
      then have "distinct (map ?bn segs) = distinct (map HeaderNumber pkt)"
        by (rule mset_eq_imp_distinct_iff)
      moreover have "distinct (map ?bn segs) = distinct (map Number segs)"
        by (simp only: bn distinct_map_uint)
      ultimately have di: "distinct (map HeaderNumber pkt) = distinct (map Number segs)"
        by simp
      show "(e = Ev_ProcessHeaders segs newBlock p \<longrightarrow>
                     sorted (map ?bn segs) \<and>
                     (distinct (map HeaderNumber pkt) \<longrightarrow>
                        sorted_wrt (\<lambda>a b. a < b) (map ?bn segs))) \<and>
                  (e = Ev_ProcessHeadersPOS segs p \<longrightarrow>
                     sorted (rev (map ?bn segs)) \<and>
                     (distinct (map HeaderNumber pkt) \<longrightarrow>
                        sorted_wrt (\<lambda>a b. a > b) (map ?bn segs)))"
      proof (intro conjI impI)
        assume "e = Ev_ProcessHeaders segs newBlock p"
        with pow have s: "sorted (map Number segs)"
          "distinct (map Number segs) \<longrightarrow> sorted_wrt (\<lambda>a b. a < b) (map Number segs)"
          by simp_all
        show "sorted (map ?bn segs)" by (simp only: bn sorted_map_uint s(1))
        assume "distinct (map HeaderNumber pkt)"
        with di s(2) have st: "sorted_wrt (\<lambda>a b. a < b) (map Number segs)" by simp
        show "sorted_wrt (\<lambda>a b. a < b) (map ?bn segs)"
          by (simp only: bn strict_sorted_map_uint st)
      next
        assume "e = Ev_ProcessHeadersPOS segs p"
        with pos have s: "sorted (rev (map Number segs))"
          "distinct (map Number segs) \<longrightarrow> sorted_wrt (\<lambda>a b. a > b) (map Number segs)"
          by simp_all
        have rv: "rev (map ?bn segs) = map uint (rev (map Number segs))"
          by (simp only: bn rev_map)
        show "sorted (rev (map ?bn segs))" by (simp only: rv sorted_map_uint s(1))
        assume "distinct (map HeaderNumber pkt)"
        with di s(2) have "sorted_wrt (\<lambda>a b. a > b) (map Number segs)" by simp
        then have st: "sorted_wrt (\<lambda>a b. a < b) (rev (map Number segs))"
          by (simp add: sorted_wrt_rev)
        have "sorted_wrt (\<lambda>a b. a < b) (rev (map ?bn segs))"
          by (simp only: rv strict_sorted_map_uint st)
        then show "sorted_wrt (\<lambda>a b. a > b) (map ?bn segs)"
          by (simp add: sorted_wrt_rev)
      qed
    qed
    from d(1) mh num rng show "\<exists>rid pkt.
               DecodeBlockHeadersPacket66 (rlp E) (Data inmsg) = Inr (rid, pkt) \<and>
               mset (map Header segs) = mset pkt \<and>
               map Number segs = map (\<lambda>h. Uint64 (HeaderNumber (Header h))) segs \<and>
               ((\<forall>h \<in> set pkt. 0 \<le> HeaderNumber h \<and> HeaderNumber h < 2 ^ 64) \<longrightarrow>
                  (e = Ev_ProcessHeaders segs newBlock p \<longrightarrow>
                     sorted (map ?bn segs) \<and>
                     (distinct (map HeaderNumber pkt) \<longrightarrow>
                        sorted_wrt (\<lambda>a b. a < b) (map ?bn segs))) \<and>
                  (e = Ev_ProcessHeadersPOS segs p \<longrightarrow>
                     sorted (rev (map ?bn segs)) \<and>
                     (distinct (map HeaderNumber pkt) \<longrightarrow>
                        sorted_wrt (\<lambda>a b. a > b) (map ?bn segs))))"
      by blast
  qed
qed

theorem blockHeaders66_sorted_witness:
  "Ev_ProcessHeaders [s4_segment 8, s4_segment 10, s4_segment 11] False [0x03]
     \<in> set (since [] (snd (blockHeaders66 s4_env mock_cs s4_msg 0 []))) \<and>
   distinct (map Number [s4_segment 8, s4_segment 10, s4_segment 11]) \<and>
   sorted_wrt (\<lambda>a b. a < b) (map Number [s4_segment 8, s4_segment 10, s4_segment 11]) \<and>
   sorted_wrt (\<lambda>a b. a < b)
     (map (\<lambda>h. HeaderNumber (Header h)) [s4_segment 8, s4_segment 10, s4_segment 11]) \<and>
   Ev_ProcessHeadersPOS [s4_segment 11, s4_segment 10, s4_segment 8] [0x03]
     \<in> set (since [] (snd (blockHeaders66 s4_pos_env mock_cs s4_msg 0 []))) \<and>
   distinct (map Number [s4_segment 11, s4_segment 10, s4_segment 8]) \<and>
   sorted_wrt (\<lambda>a b. a > b) (map Number [s4_segment 11, s4_segment 10, s4_segment 8]) \<and>
   sorted_wrt (\<lambda>a b. a > b)
     (map (\<lambda>h. HeaderNumber (Header h)) [s4_segment 11, s4_segment 10, s4_segment 8])"
proof -
  have h1: "Ev_ProcessHeaders [s4_segment 8, s4_segment 10, s4_segment 11] False [0x03]
     \<in> set (since [] (snd (blockHeaders66 s4_env mock_cs s4_msg 0 [])))"
    by (simp add: s4_run since_def)
  have h2: "Ev_ProcessHeadersPOS [s4_segment 11, s4_segment 10, s4_segment 8] [0x03]
     \<in> set (since [] (snd (blockHeaders66 s4_pos_env mock_cs s4_msg 0 [])))"
    by (simp add: s4_pos_run since_def)
  have d1: "distinct (map Number [s4_segment 8, s4_segment 10, s4_segment 11])"
    by (simp add: s4_segment_def)
  have d2: "distinct (map Number [s4_segment 11, s4_segment 10, s4_segment 8])"
    by (simp add: s4_segment_def)
  have b1: "sorted_wrt (\<lambda>a b. a < b)
     (map (\<lambda>h. HeaderNumber (Header h)) [s4_segment 8, s4_segment 10, s4_segment 11])"
    by (simp add: s4_segment_def)
  have b2: "sorted_wrt (\<lambda>a b. a > b)
     (map (\<lambda>h. HeaderNumber (Header h)) [s4_segment 11, s4_segment 10, s4_segment 8])"
    by (simp add: s4_segment_def)
  show ?thesis
    using h1 h2 d1 d2 b1 b2
      blockHeaders66_sorted [OF h1, of "[s4_segment 8, s4_segment 10, s4_segment 11]" False "[0x03]"]
      blockHeaders66_sorted [OF h2, of "[s4_segment 11, s4_segment 10, s4_segment 8]" False "[0x03]"]
    by simp
qed

theorem blockHeaders66_not_strictly_sorted:
  "Ev_ProcessHeaders dup_segments False [0x03]
     \<in> set (since [] (snd (blockHeaders66 dup_env mock_cs dup_msg 0 []))) \<and>
   map Number dup_segments = [5, 5] \<and>
   \<not> sorted_wrt (\<lambda>a b. a < b) (map Number dup_segments) \<and>
   Ev_ProcessHeadersPOS (rev dup_segments) [0x03]
     \<in> set (since [] (snd (blockHeaders66 dup_pos_env mock_cs dup_msg 0 []))) \<and>
   \<not> sorted_wrt (\<lambda>a b. a > b) (map Number (rev dup_segments)) \<and>
   Ev_ProcessHeaders wrap_segments False [0x03]
     \<in> set (since [] (snd (blockHeaders66 wrap_env mock_cs wrap_msg 0 []))) \<and>
   map (\<lambda>h. HeaderNumber (Header h)) wrap_segments = [18446744073709551621, 7] \<and>
   \<not> sorted (map (\<lambda>h. HeaderNumber (Header h)) wrap_segments)"
  by (simp add: dup_run dup_pos_run wrap_run since_def dup_segments_def wrap_segments_def)

text \<open>C8, as amended: when block download is enabled, the packet decodes to a list of
  headers that is not empty, and \<open>blockHeaders66\<close> returns nil, the handler has first handed
  the headers to the downloader and has then called \<open>PeerMinBlock\<close>, once, on the sentry
  and for the peer of the message, with the greatest of the block numbers of the packet as
  \<open>Number.Uint64()\<close> reads them; this is the greatest block number of the packet when every
  block number of the packet fits 64 bits. For a packet with the block numbers
  \<open>2^64 + 5\<close> and 7 the handler reports 7: the counterexample follows the witness.\<close>

theorem blockHeaders66_PeerMinBlock:
  assumes "\<not> disableBlockDownload cs"
    and "DecodeBlockHeadersPacket66 (rlp E) (Data inmsg) = Inr (rid, pkt)"
    and "pkt \<noteq> []"
    and "blockHeaders66 E cs inmsg sentry tr = (None, tr')"
  shows "(\<exists>ev rest log.
            isProcessHeaders ev \<and> quiet rest \<and> quiet log \<and>
            since tr tr' =
              [ev] @ rest
                @ [Ev_PeerMinBlock sentry (PeerId inmsg)
                     (Max (set (map (\<lambda>h. Uint64 (HeaderNumber h)) pkt)))]
                @ log) \<and>
         filter isPeerMinBlock (since tr tr') =
           [Ev_PeerMinBlock sentry (PeerId inmsg)
              (Max (set (map (\<lambda>h. Uint64 (HeaderNumber h)) pkt)))] \<and>
         ((\<forall>h \<in> set pkt. 0 \<le> HeaderNumber h \<and> HeaderNumber h < 2 ^ 64) \<longrightarrow>
            uint (Max (set (map (\<lambda>h. Uint64 (HeaderNumber h)) pkt))) = Max (HeaderNumber ` set pkt))"
proof (intro conjI)
  let ?S = "set (map (\<lambda>h. Uint64 (HeaderNumber h)) pkt)"
  have ne: "finite ?S" "?S \<noteq> {}" using assms(3) by simp_all
  have m0: "Max (insert 0 ?S) = Max ?S"
    using ne by (simp add: max_def)
  from blockHeaders66_trace [OF assms(4)]
  have shape: "\<exists>ev rest log.
            isProcessHeaders ev \<and> quiet rest \<and> quiet log \<and>
            since tr tr' = [ev] @ rest @ [Ev_PeerMinBlock sentry (PeerId inmsg) (Max ?S)] @ log"
  proof (elim disjE exE conjE, goal_cases)
    case 1
    then show ?case by simp
  next
    case 2
    with assms(1) show ?case by simp
  next
    case (3 rid')
    with assms(2,3) show ?case by simp
  next
    case 4
    then show ?case by simp
  next
    case (5 rid' pkt' raws csH ev rest log)
    from 5(1) assms(2) have p: "pkt' = pkt" by simp
    have "isProcessHeaders ev" using 5(4) by simp
    moreover have "since tr tr' = [ev] @ rest @ [Ev_PeerMinBlock sentry (PeerId inmsg) (Max ?S)] @ log"
      using 5(8) p m0 by (simp add: since_def)
    ultimately show ?case using 5(5,6) by blast
  qed
  then show "\<exists>ev rest log.
            isProcessHeaders ev \<and> quiet rest \<and> quiet log \<and>
            since tr tr' = [ev] @ rest @ [Ev_PeerMinBlock sentry (PeerId inmsg) (Max ?S)] @ log" .
  from shape obtain ev rest log where
    s: "isProcessHeaders ev" "quiet rest" "quiet log"
       "since tr tr' = [ev] @ rest @ [Ev_PeerMinBlock sentry (PeerId inmsg) (Max ?S)] @ log"
    by blast
  from s(1) have "\<not> isPeerMinBlock ev" by (cases ev) simp_all
  then show "filter isPeerMinBlock (since tr tr') = [Ev_PeerMinBlock sentry (PeerId inmsg) (Max ?S)]"
    using s(2,3,4) by (simp add: filter_quiet)
  show "(\<forall>h \<in> set pkt. 0 \<le> HeaderNumber h \<and> HeaderNumber h < 2 ^ 64) \<longrightarrow>
          uint (Max ?S) = Max (HeaderNumber ` set pkt)"
  proof
    assume r: "\<forall>h \<in> set pkt. 0 \<le> HeaderNumber h \<and> HeaderNumber h < 2 ^ 64"
    have "uint ` ?S = HeaderNumber ` set pkt"
      using r by (auto simp: uint_Uint64 image_iff intro!: bexI)
    then show "uint (Max ?S) = Max (HeaderNumber ` set pkt)"
      using Max_uint [OF ne] by simp
  qed
qed

theorem blockHeaders66_PeerMinBlock_witness:
  "blockHeaders66 s4_env mock_cs s4_msg 0 [] =
     (None, [Ev_ProcessHeaders [s4_segment 8, s4_segment 10, s4_segment 11] False [0x03],
             Ev_PeerMinBlock 0 [0x03] 11]) \<and>
   filter isPeerMinBlock
     [Ev_ProcessHeaders [s4_segment 8, s4_segment 10, s4_segment 11] False [0x03],
      Ev_PeerMinBlock 0 [0x03] 11] = [Ev_PeerMinBlock 0 [0x03] 11] \<and>
   Max (set (map (\<lambda>h. Uint64 (HeaderNumber h))
     [\<lparr>HeaderNumber = 8, HeaderFields = []\<rparr>, \<lparr>HeaderNumber = 11, HeaderFields = []\<rparr>,
      \<lparr>HeaderNumber = 10, HeaderFields = []\<rparr>])) = 11"
proof -
  have c: "\<not> disableBlockDownload mock_cs" by (simp add: mock_defs)
  have d: "DecodeBlockHeadersPacket66 (rlp s4_env) (Data s4_msg) =
             Inr (1, [\<lparr>HeaderNumber = 8, HeaderFields = []\<rparr>,
                      \<lparr>HeaderNumber = 11, HeaderFields = []\<rparr>,
                      \<lparr>HeaderNumber = 10, HeaderFields = []\<rparr>])"
    by (simp add: s4_env_def mock_defs)
  have n: "[\<lparr>HeaderNumber = 8, HeaderFields = []\<rparr>, \<lparr>HeaderNumber = 11, HeaderFields = []\<rparr>,
            \<lparr>HeaderNumber = 10, HeaderFields = []\<rparr>] \<noteq> []"
    by simp
  show ?thesis
    using blockHeaders66_PeerMinBlock [OF c d n s4_run] s4_run
    by (simp add: since_def)
qed

theorem blockHeaders66_PeerMinBlock_truncated:
  "DecodeBlockHeadersPacket66 (rlp wrap_env) (Data wrap_msg) = Inr (1, wrap_packet) \<and>
   map HeaderNumber wrap_packet = [18446744073709551621, 7] \<and>
   blockHeaders66 wrap_env mock_cs wrap_msg 0 [] =
     (None, [Ev_ProcessHeaders wrap_segments False [0x03], Ev_PeerMinBlock 0 [0x03] 7]) \<and>
   Max (set (map HeaderNumber wrap_packet)) = 18446744073709551621 \<and>
   uint (7 :: uint64) < Max (set (map HeaderNumber wrap_packet))"
proof -
  have d: "DecodeBlockHeadersPacket66 (rlp wrap_env) (Data wrap_msg) = Inr (1, wrap_packet)"
    by (simp add: wrap_env_def mock_defs)
  have n: "map HeaderNumber wrap_packet = [18446744073709551621, 7]"
    by (simp add: wrap_packet_def)
  show ?thesis by (simp add: d n wrap_run)
qed

subsection \<open>The header ingest: \<open>NewBlockHashes66\<close>\<close>

lemma newBlockHashes66_loop_steps:
  "newBlockHashes66_loop E req sentry request tr = (None, tr') \<Longrightarrow>
     \<exists>steps. announce_steps E req sentry tr request steps \<and> tr' = tr @ concat steps"
proof (induction request arbitrary: tr)
  case Nil
  then have "announce_steps E req sentry tr [] [] \<and> tr' = tr @ concat []" by simp
  then show ?case by blast
next
  case (Cons a request)
  let ?h = "AnnounceHash a"
  let ?tr1 = "tr @ [Ev_SaveExternalAnnounce ?h]"
  show ?case
  proof (cases "HasLink (Hd E) ?tr1 ?h")
    case True
    with Cons.prems have "newBlockHashes66_loop E req sentry request ?tr1 = (None, tr')"
      by (simp add: Let_def)
    from Cons.IH [OF this] obtain steps where
      s: "announce_steps E req sentry ?tr1 request steps" "tr' = ?tr1 @ concat steps"
      by blast
    have "announce_step E req sentry tr a [Ev_SaveExternalAnnounce ?h]"
      using True by (simp add: announce_step_def Let_def)
    with s have "announce_steps E req sentry tr (a # request) ([Ev_SaveExternalAnnounce ?h] # steps) \<and>
                 tr' = tr @ concat ([Ev_SaveExternalAnnounce ?h] # steps)"
      by simp
    then show ?thesis by blast
  next
    case False
    show ?thesis
    proof (cases "EncodeGetBlockHeadersPacket66 (rlp E)
                   (RandUint64 (store E) ?tr1,
                    \<lparr>Origin = \<lparr>OriginHash = ?h, OriginNumber = 0\<rparr>,
                     Amount = 1, Skip = 0, Reverse = False\<rparr>)")
      case (Inl err)
      with False Cons.prems show ?thesis by (simp add: Let_def)
    next
      case (Inr b)
      let ?evs = "[Ev_SaveExternalAnnounce ?h,
                   Ev_SendMessageById sentry (PeerId req) GET_BLOCK_HEADERS_66 b]"
      from False Inr Cons.prems
      have "newBlockHashes66_loop E req sentry request (tr @ ?evs) = (None, tr')"
        by (simp add: Let_def split: option.splits if_splits)
      from Cons.IH [OF this] obtain steps where
        s: "announce_steps E req sentry (tr @ ?evs) request steps" "tr' = (tr @ ?evs) @ concat steps"
        by blast
      have "announce_step E req sentry tr a ?evs"
        using False Inr by (simp add: announce_step_def Let_def)
      with s have "announce_steps E req sentry tr (a # request) (?evs # steps) \<and>
                   tr' = tr @ concat (?evs # steps)"
        by simp
      then show ?thesis by blast
    qed
  qed
qed

lemma s1_run:
  "newBlockHashes66 s1_env mock_cs s1_msg 0 [] =
     (None, [Ev_SaveExternalAnnounce [0xAA],
             Ev_SendMessageById 0 [0x04] GET_BLOCK_HEADERS_66 [1, 0xAA]])"
  by (simp add: newBlockHashes66_def s1_env_def s1_msg_def mock_defs Let_def)

text \<open>C7: when block download is enabled, the downloader is not in an initial cycle
  without fetching, the packet decodes, and \<open>newBlockHashes66\<close> returns nil (no request
  failed to encode, and no send failed but with "peer not found"), the handler has done for
  each announce of the packet, in order, the step of the specification and nothing else:
  \<open>SaveExternalAnnounce\<close> of the hash, and then, unless \<open>HasLink\<close> holds for the hash, one
  \<open>GetBlockHeaders66\<close> message to the announcing peer on the sentry of the packet, with
  origin the announced hash, amount 1, skip 0, reverse false and a request id from
  \<open>rand.Uint64\<close>.\<close>

theorem newBlockHashes66_requests_headers:
  assumes "\<not> disableBlockDownload cs"
    and "\<not> (InitialCycle (Hd E) tr \<and> \<not> FetchingNew (Hd E) tr)"
    and "DecodeNewBlockHashesPacket (rlp E) (Data req) = Inr request"
    and "newBlockHashes66 E cs req sentry tr = (None, tr')"
  shows "\<exists>steps. announce_steps E req sentry tr request steps \<and> tr' = tr @ concat steps"
proof -
  from assms have "newBlockHashes66_loop E req sentry request tr = (None, tr')"
    by (auto simp: newBlockHashes66_def)
  then show ?thesis by (rule newBlockHashes66_loop_steps)
qed

theorem newBlockHashes66_requests_headers_witness:
  "newBlockHashes66 s1_env mock_cs s1_msg 0 [] =
     (None, [Ev_SaveExternalAnnounce [0xAA],
             Ev_SendMessageById 0 [0x04] GET_BLOCK_HEADERS_66 [1, 0xAA]]) \<and>
   EncodeGetBlockHeadersPacket66 (rlp s1_env)
     (1, \<lparr>Origin = \<lparr>OriginHash = [0xAA], OriginNumber = 0\<rparr>,
          Amount = 1, Skip = 0, Reverse = False\<rparr>) = Inr [1, 0xAA] \<and>
   (\<exists>steps. announce_steps s1_env s1_msg 0 [] [\<lparr>AnnounceHash = [0xAA], AnnounceNumber = 100\<rparr>] steps \<and>
      [Ev_SaveExternalAnnounce [0xAA],
       Ev_SendMessageById 0 [0x04] GET_BLOCK_HEADERS_66 [1, 0xAA]] = [] @ concat steps)"
proof -
  have c: "\<not> disableBlockDownload mock_cs" by (simp add: mock_defs)
  have g: "\<not> (InitialCycle (Hd s1_env) [] \<and> \<not> FetchingNew (Hd s1_env) [])"
    by (simp add: s1_env_def mock_defs)
  have d: "DecodeNewBlockHashesPacket (rlp s1_env) (Data s1_msg) =
             Inr [\<lparr>AnnounceHash = [0xAA], AnnounceNumber = 100\<rparr>]"
    by (simp add: s1_env_def mock_defs)
  have e: "EncodeGetBlockHeadersPacket66 (rlp s1_env)
     (1, \<lparr>Origin = \<lparr>OriginHash = [0xAA], OriginNumber = 0\<rparr>,
          Amount = 1, Skip = 0, Reverse = False\<rparr>) = Inr [1, 0xAA]"
    by (simp add: s1_env_def mock_defs)
  show ?thesis
    using newBlockHashes66_requests_headers [OF c g d s1_run] s1_run e by simp
qed

subsection \<open>The header ingest: \<open>NewBlock66\<close>\<close>

lemma newBlock66_penalize_trace:
  "\<exists>kicks. newBlock66_penalize E inreq ss tr = tr @ kicks \<and> filter isPropagate kicks = []"
proof (induction ss arbitrary: tr)
  case Nil
  show ?case by simp
next
  case (Cons s ss)
  show ?case
  proof (cases "NotReadyDirect (sentryApi E) tr s")
    case True
    with Cons.IH [of tr] show ?thesis by simp
  next
    case False
    let ?tr1 = "tr @ [Ev_PenalizePeer s (PeerId inreq) Kick]"
    show ?thesis
    proof (cases "PenalizePeer (sentryApi E) tr s (PeerId inreq) Kick")
      case None
      from Cons.IH [of ?tr1] obtain kicks where
        "newBlock66_penalize E inreq ss ?tr1 = ?tr1 @ kicks" "filter isPropagate kicks = []"
        by blast
      with False None show ?thesis by (simp add: Let_def)
    next
      case (Some err1)
      from Cons.IH [of "?tr1 @ [Ev_Log LvlError ''Could not send penalty'']"] obtain kicks where
        "newBlock66_penalize E inreq ss (?tr1 @ [Ev_Log LvlError ''Could not send penalty'']) =
           (?tr1 @ [Ev_Log LvlError ''Could not send penalty'']) @ kicks"
        "filter isPropagate kicks = []"
        by blast
      with False Some show ?thesis by (simp add: Let_def)
    qed
  qed
qed

lemma newBlock66_finish_trace:
  "\<exists>log. filter isPropagate log = [] \<and>
     newBlock66_finish E inreq sentryClient request tr =
       tr @ [Ev_AddToPrefetch (BlockHeader (NewBlock request)) (BlockRawBody (NewBlock request)),
             Ev_PeerMinBlock sentryClient (PeerId inreq) (NumberU64 (NewBlock request))] @ log"
  by (simp add: newBlock66_finish_def callPeerMinBlock_def Let_def split: option.splits)

lemma newBlock66_reaches_segment:
  assumes "\<not> disableBlockDownload cs"
    and "StreamList (rlpStream E) (NewStream (Data inreq)) = Inr s1"
    and "StreamList (rlpStream E) s1 = Inr s2"
    and "StreamRaw (rlpStream E) s2 = Inr (headerRaw, s3)"
    and "DecodeNewBlockPacket (rlp E) (Data inreq) = Inr request"
    and "SanityCheck (store E) request = None"
    and "HashCheck (store E) (NewBlock request) = None"
  shows "newBlock66 E cs inreq sentryClient tr =
           newBlock66_segment E cs inreq sentryClient headerRaw request tr"
  using assms by (simp add: newBlock66_def)

lemma newBlock66_NoPenalty_trace:
  "newBlock66_NoPenalty E cs inreq (s0 # segments) tr =
     (None,
      tr @ (if \<not> IsMock cs \<and> \<not> TerminalTotalDifficultyPassed cs \<and>
               (case FirstPoSHeight (Hd E) tr of None \<Rightarrow> True | Some firstPosSeen \<Rightarrow> Number s0 \<le> firstPosSeen)
            then [Ev_PropagateNewBlockHashes [\<lparr>AnnounceHash = Hash s0, AnnounceNumber = Number s0\<rparr>]]
            else [])
         @ [Ev_ProcessHeaders (s0 # segments) True (PeerId inreq)])"
  by (auto simp: newBlock66_NoPenalty_def newBlock66_propagate_def Let_def split: option.splits)

lemmas newBlock66_defs = newBlock66_def newBlock66_segment_def newBlock66_NoPenalty_def
  newBlock66_propagate_def newBlock66_finish_def callPeerMinBlock_def NumberU64_def Uint64_def
  newBlock_msg_def block10_def Let_def

text \<open>C9: when \<open>SingleHeaderAsSegment\<close> returns without an error, with a penalty or
  without one (and then with a segment), \<open>newBlock66\<close> returns nil after it has prefetched
  the body of the block with \<open>AddToPrefetch\<close> and reported the number of the block with
  \<open>PeerMinBlock\<close> for the peer, on the sentry of the message.\<close>

theorem newBlock66_prefetch_after_penalty:
  assumes "\<not> disableBlockDownload cs"
    and "StreamList (rlpStream E) (NewStream (Data inreq)) = Inr s1"
    and "StreamList (rlpStream E) s1 = Inr s2"
    and "StreamRaw (rlpStream E) s2 = Inr (headerRaw, s3)"
    and "DecodeNewBlockPacket (rlp E) (Data inreq) = Inr request"
    and "SanityCheck (store E) request = None"
    and "HashCheck (store E) (NewBlock request) = None"
    and "SingleHeaderAsSegment (Hd E) tr headerRaw (BlockHeader (NewBlock request)) True =
           Inr (segments, penalty)"
    and "penalty \<noteq> NoPenalty \<or> segments \<noteq> []"
  shows "fst (newBlock66 E cs inreq sentryClient tr) = Return None \<and>
         (\<exists>before log.
            snd (newBlock66 E cs inreq sentryClient tr) =
              tr @ before
                 @ [Ev_AddToPrefetch (BlockHeader (NewBlock request)) (BlockRawBody (NewBlock request)),
                    Ev_PeerMinBlock sentryClient (PeerId inreq) (NumberU64 (NewBlock request))]
                 @ log)"
proof -
  let ?tr1 = "tr @ [Ev_SingleHeaderAsSegment headerRaw (BlockHeader (NewBlock request)) True]"
  have seg: "newBlock66 E cs inreq sentryClient tr =
               newBlock66_segment E cs inreq sentryClient headerRaw request tr"
    by (rule newBlock66_reaches_segment [OF assms(1-7)])
  show ?thesis
  proof (cases "penalty = NoPenalty")
    case True
    with assms(9) obtain s0 rest where segs: "segments = s0 # rest"
      by (cases segments) auto
    obtain mid where mid: "newBlock66_NoPenalty E cs inreq segments ?tr1 = (None, ?tr1 @ mid)"
      using newBlock66_NoPenalty_trace [of E cs inreq s0 rest ?tr1] segs by simp
    obtain log where log: "newBlock66_finish E inreq sentryClient request (?tr1 @ mid) =
       (?tr1 @ mid) @ [Ev_AddToPrefetch (BlockHeader (NewBlock request)) (BlockRawBody (NewBlock request)),
             Ev_PeerMinBlock sentryClient (PeerId inreq) (NumberU64 (NewBlock request))] @ log"
      using newBlock66_finish_trace by blast
    have "newBlock66 E cs inreq sentryClient tr =
            (Return None,
             tr @ ([Ev_SingleHeaderAsSegment headerRaw (BlockHeader (NewBlock request)) True] @ mid)
                @ [Ev_AddToPrefetch (BlockHeader (NewBlock request)) (BlockRawBody (NewBlock request)),
                   Ev_PeerMinBlock sentryClient (PeerId inreq) (NumberU64 (NewBlock request))] @ log)"
      using seg assms(8) True mid log by (simp add: newBlock66_segment_def Let_def)
    then show ?thesis by (metis fst_conv snd_conv)
  next
    case False
    obtain kicks where kicks: "newBlock66_penalize E inreq (sentries cs) ?tr1 = ?tr1 @ kicks"
      using newBlock66_penalize_trace by blast
    obtain log where log: "newBlock66_finish E inreq sentryClient request (?tr1 @ kicks) =
       (?tr1 @ kicks) @ [Ev_AddToPrefetch (BlockHeader (NewBlock request)) (BlockRawBody (NewBlock request)),
             Ev_PeerMinBlock sentryClient (PeerId inreq) (NumberU64 (NewBlock request))] @ log"
      using newBlock66_finish_trace by blast
    have "newBlock66 E cs inreq sentryClient tr =
            (Return None,
             tr @ ([Ev_SingleHeaderAsSegment headerRaw (BlockHeader (NewBlock request)) True] @ kicks)
                @ [Ev_AddToPrefetch (BlockHeader (NewBlock request)) (BlockRawBody (NewBlock request)),
                   Ev_PeerMinBlock sentryClient (PeerId inreq) (NumberU64 (NewBlock request))] @ log)"
      using seg assms(8) False kicks log by (simp add: newBlock66_segment_def Let_def)
    then show ?thesis by (metis fst_conv snd_conv)
  qed
qed

theorem newBlock66_prefetch_after_penalty_witness:
  "SingleHeaderAsSegment (Hd penalty_env) [] [1, 10] (BlockHeader block10) True =
     Inr ([], OtherPenalty 1) \<and>
   fst (newBlock66 penalty_env mock_cs newBlock_msg 0 []) = Return None \<and>
   (\<exists>before log.
      snd (newBlock66 penalty_env mock_cs newBlock_msg 0 []) =
        [] @ before
           @ [Ev_AddToPrefetch (BlockHeader block10) (BlockRawBody block10),
              Ev_PeerMinBlock 0 [0x05] 10]
           @ log)"
proof -
  have c: "\<not> disableBlockDownload mock_cs" by (simp add: mock_defs)
  have l1: "StreamList (rlpStream penalty_env) (NewStream (Data newBlock_msg)) =
              Inr ([3, 1, 10, 1, 0], [5])"
    by (simp add: penalty_env_def newBlock_msg_def mock_defs)
  have l2: "StreamList (rlpStream penalty_env) ([3, 1, 10, 1, 0], [5]) = Inr ([1, 10, 1, 0], [3, 5])"
    by (simp add: penalty_env_def mock_defs)
  have r: "StreamRaw (rlpStream penalty_env) ([1, 10, 1, 0], [3, 5]) = Inr ([1, 10], ([1, 0], [3, 5]))"
    by (simp add: penalty_env_def mock_defs)
  have d: "DecodeNewBlockPacket (rlp penalty_env) (Data newBlock_msg) =
             Inr \<lparr>NewBlock = block10, TD = 0\<rparr>"
    by (simp add: penalty_env_def mock_defs)
  have s: "SanityCheck (store penalty_env) \<lparr>NewBlock = block10, TD = 0\<rparr> = None"
    by (simp add: penalty_env_def mock_defs)
  have h: "HashCheck (store penalty_env) (NewBlock \<lparr>NewBlock = block10, TD = 0\<rparr>) = None"
    by (simp add: penalty_env_def mock_defs)
  have p: "SingleHeaderAsSegment (Hd penalty_env) [] [1, 10]
             (BlockHeader (NewBlock \<lparr>NewBlock = block10, TD = 0\<rparr>)) True = Inr ([], OtherPenalty 1)"
    by (simp add: penalty_env_def mock_defs)
  have n: "OtherPenalty 1 \<noteq> NoPenalty \<or> ([] :: ChainSegmentHeader list) \<noteq> []" by simp
  have m: "NumberU64 block10 = 10" by (simp add: NumberU64_def Uint64_def block10_def)
  show ?thesis
    using newBlock66_prefetch_after_penalty [where sentryClient = 0, OF c l1 l2 r d s h p n] p m
    by (simp add: newBlock_msg_def)
qed

text \<open>C4, as amended: for a \<open>NewBlock66\<close> message that \<open>SingleHeaderAsSegment\<close> turns into
  a segment without a penalty, \<open>newBlock66\<close> announces the block with
  \<open>PropagateNewBlockHashes\<close> exactly when the client is not a mock, the chain configuration
  does not say that the terminal total difficulty has passed, and the first observed PoS
  height is unset or not below the block number of the segment. So there is no
  announcement when the PoS height is set and the block number is greater than it, and
  none in mock mode; a block at the first observed PoS height itself is announced, which
  is the counterexample after the witness.\<close>

theorem newBlock66_propagation_rule:
  assumes "\<not> disableBlockDownload cs"
    and "StreamList (rlpStream E) (NewStream (Data inreq)) = Inr s1"
    and "StreamList (rlpStream E) s1 = Inr s2"
    and "StreamRaw (rlpStream E) s2 = Inr (headerRaw, s3)"
    and "DecodeNewBlockPacket (rlp E) (Data inreq) = Inr request"
    and "SanityCheck (store E) request = None"
    and "HashCheck (store E) (NewBlock request) = None"
    and "SingleHeaderAsSegment (Hd E) tr headerRaw (BlockHeader (NewBlock request)) True =
           Inr (s0 # segments, NoPenalty)"
  shows "filter isPropagate (since tr (snd (newBlock66 E cs inreq sentryClient tr))) =
           (if \<not> IsMock cs \<and> \<not> TerminalTotalDifficultyPassed cs \<and>
               (case FirstPoSHeight (Hd E)
                       (tr @ [Ev_SingleHeaderAsSegment headerRaw (BlockHeader (NewBlock request)) True]) of
                  None \<Rightarrow> True
                | Some firstPosSeen \<Rightarrow> \<not> Number s0 > firstPosSeen)
            then [Ev_PropagateNewBlockHashes [\<lparr>AnnounceHash = Hash s0, AnnounceNumber = Number s0\<rparr>]]
            else [])"
proof -
  let ?tr1 = "tr @ [Ev_SingleHeaderAsSegment headerRaw (BlockHeader (NewBlock request)) True]"
  let ?mid = "(if \<not> IsMock cs \<and> \<not> TerminalTotalDifficultyPassed cs \<and>
               (case FirstPoSHeight (Hd E) ?tr1 of None \<Rightarrow> True | Some firstPosSeen \<Rightarrow> Number s0 \<le> firstPosSeen)
            then [Ev_PropagateNewBlockHashes [\<lparr>AnnounceHash = Hash s0, AnnounceNumber = Number s0\<rparr>]]
            else [])
         @ [Ev_ProcessHeaders (s0 # segments) True (PeerId inreq)]"
  have seg: "newBlock66 E cs inreq sentryClient tr =
               newBlock66_segment E cs inreq sentryClient headerRaw request tr"
    by (rule newBlock66_reaches_segment [OF assms(1-7)])
  have mid: "newBlock66_NoPenalty E cs inreq (s0 # segments) ?tr1 = (None, ?tr1 @ ?mid)"
    by (rule newBlock66_NoPenalty_trace)
  obtain log where log: "filter isPropagate log = []"
    "newBlock66_finish E inreq sentryClient request (?tr1 @ ?mid) =
       (?tr1 @ ?mid) @ [Ev_AddToPrefetch (BlockHeader (NewBlock request)) (BlockRawBody (NewBlock request)),
             Ev_PeerMinBlock sentryClient (PeerId inreq) (NumberU64 (NewBlock request))] @ log"
    using newBlock66_finish_trace by blast
  have "snd (newBlock66 E cs inreq sentryClient tr) =
          tr @ ([Ev_SingleHeaderAsSegment headerRaw (BlockHeader (NewBlock request)) True] @ ?mid
                @ [Ev_AddToPrefetch (BlockHeader (NewBlock request)) (BlockRawBody (NewBlock request)),
                   Ev_PeerMinBlock sentryClient (PeerId inreq) (NumberU64 (NewBlock request))] @ log)"
    using seg assms(8) mid log(2) by (simp add: newBlock66_segment_def Let_def)
  then have "since tr (snd (newBlock66 E cs inreq sentryClient tr)) =
          [Ev_SingleHeaderAsSegment headerRaw (BlockHeader (NewBlock request)) True] @ ?mid
                @ [Ev_AddToPrefetch (BlockHeader (NewBlock request)) (BlockRawBody (NewBlock request)),
                   Ev_PeerMinBlock sentryClient (PeerId inreq) (NumberU64 (NewBlock request))] @ log"
    by (simp add: since_def)
  then show ?thesis using log(1) by (simp add: not_less split: option.splits)
qed

theorem newBlock66_propagation_rule_witness:
  "FirstPoSHeight (Hd pos9_env) [Ev_SingleHeaderAsSegment [1, 10] (BlockHeader block10) True] = Some 9 \<and>
   NumberU64 block10 = 10 \<and>
   filter isPropagate (since [] (snd (newBlock66 pos9_env mock_cs newBlock_msg 0 []))) = []"
proof -
  have c: "\<not> disableBlockDownload mock_cs" by (simp add: mock_defs)
  have l1: "StreamList (rlpStream pos9_env) (NewStream (Data newBlock_msg)) =
              Inr ([3, 1, 10, 1, 0], [5])"
    by (simp add: pos9_env_def newBlock_msg_def mock_defs)
  have l2: "StreamList (rlpStream pos9_env) ([3, 1, 10, 1, 0], [5]) = Inr ([1, 10, 1, 0], [3, 5])"
    by (simp add: pos9_env_def mock_defs)
  have r: "StreamRaw (rlpStream pos9_env) ([1, 10, 1, 0], [3, 5]) = Inr ([1, 10], ([1, 0], [3, 5]))"
    by (simp add: pos9_env_def mock_defs)
  have d: "DecodeNewBlockPacket (rlp pos9_env) (Data newBlock_msg) =
             Inr \<lparr>NewBlock = block10, TD = 0\<rparr>"
    by (simp add: pos9_env_def mock_defs)
  have s: "SanityCheck (store pos9_env) \<lparr>NewBlock = block10, TD = 0\<rparr> = None"
    by (simp add: pos9_env_def mock_defs)
  have h: "HashCheck (store pos9_env) (NewBlock \<lparr>NewBlock = block10, TD = 0\<rparr>) = None"
    by (simp add: pos9_env_def mock_defs)
  have p: "SingleHeaderAsSegment (Hd pos9_env) [] [1, 10]
             (BlockHeader (NewBlock \<lparr>NewBlock = block10, TD = 0\<rparr>)) True =
           Inr (\<lparr>HeaderRaw = [1, 10], Header = BlockHeader block10, Hash = [10, 1], Number = 10\<rparr> # [],
                NoPenalty)"
    by (simp add: pos9_env_def mock_defs Uint64_def block10_def)
  have f: "FirstPoSHeight (Hd pos9_env)
             [Ev_SingleHeaderAsSegment [1, 10] (BlockHeader block10) True] = Some 9"
    by (simp add: pos9_env_def mock_defs)
  have m: "NumberU64 block10 = 10" by (simp add: NumberU64_def Uint64_def block10_def)
  show ?thesis
    using newBlock66_propagation_rule [where sentryClient = 0, OF c l1 l2 r d s h p] f m
    by simp
qed

theorem newBlock66_propagates_at_first_pos_height:
  "FirstPoSHeight (Hd pos10_env) [Ev_SingleHeaderAsSegment [1, 10] (BlockHeader block10) True] = Some 10 \<and>
   NumberU64 block10 = 10 \<and>
   newBlock66 pos10_env mock_cs newBlock_msg 0 [] =
     (Return None,
      [Ev_SingleHeaderAsSegment [1, 10] (BlockHeader block10) True,
       Ev_PropagateNewBlockHashes [\<lparr>AnnounceHash = [10, 1], AnnounceNumber = 10\<rparr>],
       Ev_ProcessHeaders
         [\<lparr>HeaderRaw = [1, 10], Header = BlockHeader block10, Hash = [10, 1], Number = 10\<rparr>]
         True [0x05],
       Ev_AddToPrefetch (BlockHeader block10) (BlockRawBody block10),
       Ev_PeerMinBlock 0 [0x05] 10,
       Ev_Log LvlTrace ''NewBlockMsg''])"
  by (simp add: newBlock66_defs pos10_env_def mock_defs)

end
